theory Spec2Isabelle
  imports Main
begin

section \<open>Exceptions, type keys and objects\<close>

text \<open>
  The objects of the typing level as the code uses them: as cache keys
  (\<open>provider.type_\<close>), as annotations and as results of \<open>typing.get_origin\<close> and
  \<open>typing.get_args\<close>. \<open>TGeneric origin args\<close> is a subscripted generic,
  \<open>TAnnotated t metadata\<close> is \<open>Annotated[t, ...]\<close>, \<open>TSpecial\<close> a special form
  such as \<open>Self\<close>, and \<open>InjectInstance\<close> an instance of the \<open>Inject\<close> marker,
  which occurs as annotation metadata.
\<close>

datatype ty =
    TClass string
  | TGeneric ty "ty list"
  | TAnnotated ty "ty list"
  | TSpecial string
  | InjectInstance nat

text \<open>The class \<open>aioinject.markers.Inject\<close> and the special form \<open>Self\<close>.\<close>

definition Inject :: ty where
  "Inject = TClass ''aioinject.markers.Inject''"

definition Self :: ty where
  "Self = TSpecial ''Self''"

fun isclass :: "ty \<Rightarrow> bool" where
  "isclass (TClass _) = True"
| "isclass _ = False"

fun get_origin :: "ty \<Rightarrow> ty option" where
  "get_origin (TGeneric origin _) = Some origin"
| "get_origin (TAnnotated _ _) = Some (TSpecial ''Annotated'')"
| "get_origin _ = None"

fun get_args :: "ty \<Rightarrow> ty list" where
  "get_args (TGeneric _ args) = args"
| "get_args (TAnnotated t metadata) = t # metadata"
| "get_args _ = []"

text \<open>
  Exceptions. The first group is what the source and the standard library raise;
  \<open>UserError\<close> stands for whatever a factory or a release action raises.
  \<open>TypeResolutionError\<close>, \<open>ConstructionError\<close> and \<open>ResourceReleaseError\<close> are the
  error taxonomy of the specification; no path of the source constructs them.
\<close>

datatype exn =
    ValueError string
  | KeyError string
  | NameError
  | TypeError string
  | IndexError
  | UserError nat
  | TypeResolutionError
  | ConstructionError ty exn
  | ResourceReleaseError "exn list"

text \<open>
  What calling an \<open>__exit__\<close> / \<open>__aexit__\<close> method does: it returns a value
  whose truth is all the exit stack looks at, or it raises.
\<close>

datatype exit_result = Returns bool | Raises exn

text \<open>
  An arbitrary Python object as \<open>enter_context_maybe\<close> sees it: its identity, the
  two \<open>isinstance\<close> tests, and the context-manager protocols of its class when it
  has them (the outcome of \<open>__enter__\<close> and the \<open>__exit__\<close> method, which receives
  the exception being handled, if any).
\<close>

datatype pyobj =
  PyObj (obj_id: nat)
        (isinstance_ContextDecorator: bool)
        (isinstance_AsyncContextDecorator: bool)
        (cm_protocol: "((exn + pyobj) \<times> (exn option \<Rightarrow> exit_result)) option")
        (acm_protocol: "((exn + pyobj) \<times> (exn option \<Rightarrow> exit_result)) option")

section \<open>contextlib.ExitStack and contextlib.AsyncExitStack\<close>

text \<open>
  The store delegates its cleanup to the two exit stacks of the standard library;
  this section follows \<open>contextlib.py\<close>. A registered callback is the bound
  \<open>__exit__\<close> (or \<open>__aexit__\<close>) method of the context manager \<open>cb_owner\<close>.
  \<open>_exit_callbacks\<close> is a deque used with \<open>append\<close> and \<open>pop\<close>: the list
  keeps append order, so its last element is the next one popped.

  \<open>ExitStack\<close> registers callbacks only through \<open>_push_cm_exit\<close>, which tags them
  synchronous, so its entries carry no tag; the entries of \<open>AsyncExitStack\<close> carry
  the \<open>is_sync\<close> tag that decides whether the callback is awaited.
\<close>

record callback =
  cb_owner :: nat
  cb_exit :: "exn option \<Rightarrow> exit_result"

type_synonym ExitStack = "callback list"
type_synonym AsyncExitStack = "(bool \<times> callback) list"

text \<open>The local variables of \<open>__exit__\<close> that the loop updates.\<close>

record exit_vars =
  exc_details :: "exn option"
  suppressed_exc :: bool
  pending_raise :: bool

text \<open>One release call, as the trace records it: who was released, with which
  exception details, and what the call did.\<close>

datatype release_event =
  Released (released_owner: nat) (released_with: "exn option") (release_outcome: exit_result)

text \<open>
  One iteration of the \<open>while self._exit_callbacks\<close> loop for the popped callback:
  a true result suppresses the exception being handled, a raised exception
  replaces it. (\<open>_fix_exception_context\<close> only rewrites the \<open>__context__\<close> links
  of the exception objects; it changes neither which exception is raised nor which
  callbacks run, and is left out.)
\<close>

definition exit_step :: "callback \<Rightarrow> exit_vars \<Rightarrow> exit_vars" where
  "exit_step cb v =
     (case cb_exit cb (exc_details v) of
        Returns True \<Rightarrow> v\<lparr>exc_details := None, suppressed_exc := True, pending_raise := False\<rparr>
      | Returns False \<Rightarrow> v
      | Raises new_exc \<Rightarrow> v\<lparr>exc_details := Some new_exc, pending_raise := True\<rparr>)"

text \<open>The loop; the argument lists the callbacks in pop order.\<close>

fun exit_loop :: "callback list \<Rightarrow> exit_vars \<Rightarrow> release_event list \<Rightarrow> exit_vars \<times> release_event list" where
  "exit_loop [] v tr = (v, tr)"
| "exit_loop (cb # cbs) v tr =
     exit_loop cbs (exit_step cb v)
       (tr @ [Released (cb_owner cb) (exc_details v) (cb_exit cb (exc_details v))])"

text \<open>
  \<open>ExitStack.__exit__(*exc_details)\<close>: the emptied stack, the calls made, and
  either the exception raised or the returned flag
  \<open>received_exc and suppressed_exc\<close>.
\<close>

definition ExitStack_exit ::
  "ExitStack \<Rightarrow> exn option \<Rightarrow> ExitStack \<times> release_event list \<times> (exn + bool)" where
  "ExitStack_exit stack exc =
     (let received_exc = (exc \<noteq> None);
          (v, tr) = exit_loop (rev stack)
                      \<lparr>exc_details = exc, suppressed_exc = False, pending_raise = False\<rparr> []
      in ([], tr,
          if pending_raise v
          then (case exc_details v of Some e \<Rightarrow> Inl e | None \<Rightarrow> Inr (received_exc \<and> suppressed_exc v))
          else Inr (received_exc \<and> suppressed_exc v)))"

text \<open>
  \<open>AsyncExitStack.__aexit__\<close> runs the same loop, awaiting the callbacks that are
  not synchronous; awaiting does not change what a callback returns or raises.
\<close>

definition AsyncExitStack_aexit ::
  "AsyncExitStack \<Rightarrow> exn option \<Rightarrow> AsyncExitStack \<times> release_event list \<times> (exn + bool)" where
  "AsyncExitStack_aexit stack exc =
     (let received_exc = (exc \<noteq> None);
          (v, tr) = exit_loop (rev (map snd stack))
                      \<lparr>exc_details = exc, suppressed_exc = False, pending_raise = False\<rparr> []
      in ([], tr,
          if pending_raise v
          then (case exc_details v of Some e \<Rightarrow> Inl e | None \<Rightarrow> Inr (received_exc \<and> suppressed_exc v))
          else Inr (received_exc \<and> suppressed_exc v)))"

text \<open>
  \<open>_BaseExitStack.enter_context(cm)\<close>: a class without \<open>__enter__\<close>/\<open>__exit__\<close>
  gives \<open>TypeError\<close>; a raising \<open>__enter__\<close> propagates and registers nothing;
  otherwise the exit method is pushed and the result of \<open>__enter__\<close> returned.
\<close>

definition ExitStack_enter_context :: "ExitStack \<Rightarrow> pyobj \<Rightarrow> ExitStack \<times> (exn + pyobj)" where
  "ExitStack_enter_context stack cm =
     (case cm_protocol cm of
        None \<Rightarrow> (stack, Inl (TypeError ''object does not support the context manager protocol''))
      | Some (enter_result, exit_method) \<Rightarrow>
          (case enter_result of
             Inl e \<Rightarrow> (stack, Inl e)
           | Inr result \<Rightarrow>
               (stack @ [\<lparr>cb_owner = obj_id cm, cb_exit = exit_method\<rparr>], Inr result)))"

definition AsyncExitStack_enter_context ::
  "AsyncExitStack \<Rightarrow> pyobj \<Rightarrow> AsyncExitStack \<times> (exn + pyobj)" where
  "AsyncExitStack_enter_context stack cm =
     (case cm_protocol cm of
        None \<Rightarrow> (stack, Inl (TypeError ''object does not support the context manager protocol''))
      | Some (enter_result, exit_method) \<Rightarrow>
          (case enter_result of
             Inl e \<Rightarrow> (stack, Inl e)
           | Inr result \<Rightarrow>
               (stack @ [(True, \<lparr>cb_owner = obj_id cm, cb_exit = exit_method\<rparr>)], Inr result)))"

definition AsyncExitStack_enter_async_context ::
  "AsyncExitStack \<Rightarrow> pyobj \<Rightarrow> AsyncExitStack \<times> (exn + pyobj)" where
  "AsyncExitStack_enter_async_context stack cm =
     (case acm_protocol cm of
        None \<Rightarrow> (stack, Inl (TypeError ''object does not support the asynchronous context manager protocol''))
      | Some (enter_result, exit_method) \<Rightarrow>
          (case enter_result of
             Inl e \<Rightarrow> (stack, Inl e)
           | Inr result \<Rightarrow>
               (stack @ [(False, \<lparr>cb_owner = obj_id cm, cb_exit = exit_method\<rparr>)], Inr result)))"

section \<open>aioinject/_utils.py\<close>

text \<open>\<open>enter_context_maybe(resolved, stack)\<close>: the synchronous test comes first.\<close>

definition enter_context_maybe :: "pyobj \<Rightarrow> AsyncExitStack \<Rightarrow> AsyncExitStack \<times> (exn + pyobj)" where
  "enter_context_maybe resolved stack =
     (if isinstance_ContextDecorator resolved then AsyncExitStack_enter_context stack resolved
      else if isinstance_AsyncContextDecorator resolved
      then AsyncExitStack_enter_async_context stack resolved
      else (stack, Inr resolved))"

definition enter_sync_context_maybe :: "pyobj \<Rightarrow> ExitStack \<Rightarrow> ExitStack \<times> (exn + pyobj)" where
  "enter_sync_context_maybe resolved stack =
     (if isinstance_ContextDecorator resolved then ExitStack_enter_context stack resolved
      else (stack, Inr resolved))"

section \<open>aioinject/providers.py\<close>

subsection \<open>Dependencies\<close>

record dependency =
  dependency_name :: string
  dependency_type :: ty

text \<open>
  \<open>_get_annotation_args\<close>: \<open>dep_type, *args = typing.get_args(type_hint)\<close>
  raises \<open>ValueError\<close> on the empty tuple, and the hint itself is then the type.
\<close>

definition get_annotation_args :: "ty \<Rightarrow> ty \<times> ty list" where
  "get_annotation_args type_hint =
     (case get_args type_hint of
        [] \<Rightarrow> (type_hint, [])
      | dep_type # args \<Rightarrow> (dep_type, args))"

text \<open>
  \<open>_find_inject_marker_in_annotation_args\<close>: \<open>issubclass(arg, Inject)\<close> holds for
  the class \<open>Inject\<close> (the result is then a new \<open>Inject()\<close>, written
  \<open>InjectInstance 0\<close>) and raises \<open>TypeError\<close>, which is passed over, when \<open>arg\<close>
  is no class; \<open>isinstance(arg, Inject)\<close> holds for the marker's instances.
\<close>

fun find_inject_marker_in_annotation_args :: "ty list \<Rightarrow> ty option" where
  "find_inject_marker_in_annotation_args [] = None"
| "find_inject_marker_in_annotation_args (arg # args) =
     (if isclass arg \<and> arg = Inject then Some (InjectInstance 0)
      else (case arg of
              InjectInstance n \<Rightarrow> Some arg
            | _ \<Rightarrow> find_inject_marker_in_annotation_args args))"

text \<open>
  \<open>collect_dependencies(dependant, ctx)\<close> on a dictionary of type hints (the only
  way \<open>Provider.collect_dependencies\<close> calls it); the dictionary keeps insertion
  order, so it is an association list.
\<close>

fun collect_dependencies :: "(string \<times> ty) list \<Rightarrow> dependency list" where
  "collect_dependencies [] = []"
| "collect_dependencies ((name, hint) # type_hints) =
     (let (dep_type, args) = get_annotation_args hint;
          inject_marker = find_inject_marker_in_annotation_args args
      in if inject_marker = None then collect_dependencies type_hints
         else \<lparr>dependency_name = name, dependency_type = dep_type\<rparr> # collect_dependencies type_hints)"

subsection \<open>Factories\<close>

text \<open>
  A factory is a callable. Calling it has effects, so \<open>f_call\<close>, the call
  \<open>self.impl(**kwargs)\<close>, threads the state \<open>'w\<close> of the world through the call
  and either raises or returns an object. Calling a coroutine function only
  makes a coroutine object: nothing of its body runs, so nothing the body does
  or raises shows in \<open>f_call\<close>. \<open>f_await\<close> is what awaiting the object returned by
  the call does, which for a coroutine is running its body.
  The other fields are what the code asks of the factory: \<open>__qualname__\<close>, the
  factory as a type object, \<open>isclass(factory)\<close>, \<open>typing.get_origin(factory)\<close>,
  the \<open>inspect\<close> predicates and \<open>__annotations__\<close> of the unwrapped factory,
  and \<open>__self__\<close>. Three fields stand for helpers of \<open>aioinject._utils\<close> that
  \<open>providers.py\<close> imports: \<open>f_type_hints\<close> is the outcome of
  \<open>_get_type_hints(unwrapped)\<close>, \<open>f_get_return_annotation\<close> that of
  \<open>get_return_annotation(ret_annotation, context=get_fn_ns(unwrapped))\<close>, and
  \<open>f_provider_type_hints\<close> that of \<open>_get_provider_type_hints(provider, context)\<close>.
\<close>

type_synonym kwargs = "string \<rightharpoonup> pyobj"

record 'w factory =
  f_qualname :: string
  f_as_type :: ty
  f_isclass :: bool
  f_get_origin :: "ty option"
  f_type_hints :: "exn + (string \<times> ty) list"
  f_annotations :: "(string \<times> string) list"
  f_get_return_annotation :: "string \<Rightarrow> exn + ty"
  f_isasyncgenfunction :: bool
  f_isgeneratorfunction :: bool
  f_iscoroutinefunction :: bool
  f_self :: "ty option"
  f_provider_type_hints :: "exn + (string \<times> ty) list"
  f_call :: "kwargs \<Rightarrow> 'w \<Rightarrow> (exn + pyobj) \<times> 'w"
  f_await :: "pyobj \<Rightarrow> 'w \<Rightarrow> (exn + pyobj) \<times> 'w"

definition GENERATORS :: "ty set" where
  "GENERATORS = {TClass ''collections.abc.Generator'', TClass ''collections.abc.Iterator''}"

definition ASYNC_GENERATORS :: "ty set" where
  "ASYNC_GENERATORS =
     {TClass ''collections.abc.AsyncGenerator'', TClass ''collections.abc.AsyncIterator''}"

definition msg_no_return_type :: "string \<Rightarrow> string" where
  "msg_no_return_type qualname = ''Factory '' @ qualname @ '' does not specify return type.''"

definition msg_not_defined_yet :: "string \<Rightarrow> string" where
  "msg_not_defined_yet qualname =
     ''Factory '' @ qualname @ '' does not specify return type. Or it's type is not defined yet.''"

text \<open>
  The inner \<open>try\<close> of \<open>_guess_return_type\<close>, entered in the \<open>NameError\<close> handler
  after \<open>ret_annotation = unwrapped.__annotations__["return"]\<close>.
\<close>

fun return_annotation_fallback :: "string \<Rightarrow> exn + ty \<Rightarrow> exn + ty" where
  "return_annotation_fallback qualname (Inr return_type) = Inr return_type"
| "return_annotation_fallback qualname (Inl NameError) = Inl (ValueError (msg_not_defined_yet qualname))"
| "return_annotation_fallback qualname (Inl e) = Inl e"

text \<open>
  The outer \<open>try\<close>: \<open>return_type = _get_type_hints(unwrapped)["return"]\<close> with
  its \<open>KeyError\<close> and \<open>NameError\<close> handlers. The lookup of \<open>"return"\<close> in
  \<open>__annotations__\<close> happens inside the \<open>NameError\<close> handler, where no handler
  catches its \<open>KeyError\<close>.
\<close>

fun return_type_of_hints :: "'w factory \<Rightarrow> exn + (string \<times> ty) list \<Rightarrow> exn + ty" where
  "return_type_of_hints factory (Inr hints) =
     (case map_of hints ''return'' of
        Some return_type \<Rightarrow> Inr return_type
      | None \<Rightarrow> Inl (ValueError (msg_no_return_type (f_qualname factory))))"
| "return_type_of_hints factory (Inl (KeyError k)) =
     Inl (ValueError (msg_no_return_type (f_qualname factory)))"
| "return_type_of_hints factory (Inl NameError) =
     (case map_of (f_annotations factory) ''return'' of
        None \<Rightarrow> Inl (KeyError ''return'')
      | Some ret_annotation \<Rightarrow>
          return_annotation_fallback (f_qualname factory)
            (f_get_return_annotation factory ret_annotation))"
| "return_type_of_hints factory (Inl e) = Inl e"

text \<open>
  \<open>if origin := typing.get_origin(return_type)\<close>: a generator function annotated
  with a generator or iterator type produces the first type argument;
  \<open>args[0]\<close> raises \<open>IndexError\<close> on an empty argument tuple.
\<close>

definition unwrap_generator_type :: "'w factory \<Rightarrow> ty \<Rightarrow> exn + ty" where
  "unwrap_generator_type factory return_type =
     (case get_origin return_type of
        None \<Rightarrow> Inr return_type
      | Some origin \<Rightarrow>
          (let args = get_args return_type;
               is_async_gen = (origin \<in> ASYNC_GENERATORS \<and> f_isasyncgenfunction factory);
               is_sync_gen = (origin \<in> GENERATORS \<and> f_isgeneratorfunction factory)
           in if is_async_gen \<or> is_sync_gen
              then (case args of [] \<Rightarrow> Inl IndexError | a # _ \<Rightarrow> Inr a)
              else Inr return_type))"

definition guess_return_type :: "'w factory \<Rightarrow> exn + ty" where
  "guess_return_type factory =
     (let origin = f_get_origin factory;
          is_generic = (case origin of None \<Rightarrow> False | Some orig \<Rightarrow> isclass orig)
      in if f_isclass factory \<or> is_generic then Inr (f_as_type factory)
         else (case return_type_of_hints factory (f_type_hints factory) of
                 Inl e \<Rightarrow> Inl e
               | Inr return_type \<Rightarrow>
                   (case unwrap_generator_type factory return_type of
                      Inl e \<Rightarrow> Inl e
                    | Inr return_type \<Rightarrow>
                        (case f_self factory of
                           Some self_cls \<Rightarrow> if return_type = Self then Inr self_cls else Inr return_type
                         | None \<Rightarrow> Inr return_type))))"

subsection \<open>Providers\<close>

datatype DependencyLifetime = transient | scoped | singleton

datatype provider_class = Scoped | Singleton | Transient

text \<open>
  A provider of one of the three factory classes holds the factory as \<open>impl\<close>; an
  \<open>Object\<close> provider holds the object. The last field is
  \<open>_cached_dependencies\<close>, \<open>None\<close> while the attribute is not set.
\<close>

datatype 'w provider =
    FactoryProvider provider_class "'w factory" ty "dependency list option"
  | ObjectProvider pyobj ty "dependency list option"

fun provider_type :: "'w provider \<Rightarrow> ty" where
  "provider_type (FactoryProvider c f t d) = t"
| "provider_type (ObjectProvider ob t d) = t"

fun lifetime :: "'w provider \<Rightarrow> DependencyLifetime" where
  "lifetime (FactoryProvider Scoped f t d) = scoped"
| "lifetime (FactoryProvider Singleton f t d) = singleton"
| "lifetime (FactoryProvider Transient f t d) = transient"
| "lifetime (ObjectProvider ob t d) = scoped"

fun cached_dependencies :: "'w provider \<Rightarrow> dependency list option" where
  "cached_dependencies (FactoryProvider c f t d) = d"
| "cached_dependencies (ObjectProvider ob t d) = d"

fun set_cached_dependencies :: "'w provider \<Rightarrow> dependency list \<Rightarrow> 'w provider" where
  "set_cached_dependencies (FactoryProvider c f t d) deps = FactoryProvider c f t (Some deps)"
| "set_cached_dependencies (ObjectProvider ob t d) deps = ObjectProvider ob t (Some deps)"

text \<open>
  \<open>Scoped.__init__(factory, type_)\<close>, inherited by \<open>Singleton\<close> and \<open>Transient\<close>:
  \<open>self.type_ = type_ or _guess_return_type(factory)\<close>; \<open>provider_type\<close> reads
  the attribute \<open>type_\<close>.
\<close>

definition Scoped_init :: "provider_class \<Rightarrow> 'w factory \<Rightarrow> ty option \<Rightarrow> exn + 'w provider" where
  "Scoped_init cls factory type_arg =
     (case type_arg of
        Some t \<Rightarrow> Inr (FactoryProvider cls factory t None)
      | None \<Rightarrow>
          (case guess_return_type factory of
             Inl e \<Rightarrow> Inl e
           | Inr t \<Rightarrow> Inr (FactoryProvider cls factory t None)))"

text \<open>
  \<open>Object.__init__(object_, type_)\<close>: \<open>self.type_ = type_ or type(object_)\<close>; the
  class of the object is passed as \<open>type_of_object\<close>.
\<close>

definition Object_init :: "pyobj \<Rightarrow> ty \<Rightarrow> ty option \<Rightarrow> 'w provider" where
  "Object_init obj type_of_object type_arg =
     ObjectProvider obj (case type_arg of Some t \<Rightarrow> t | None \<Rightarrow> type_of_object) None"

fun is_async :: "'w provider \<Rightarrow> bool" where
  "is_async (FactoryProvider c f t d) = f_iscoroutinefunction f"
| "is_async (ObjectProvider ob t d) = False"

text \<open>\<open>provide_sync(kwargs)\<close>: \<open>self.impl(**kwargs)\<close>, or \<open>self.impl\<close> for an object.\<close>

fun provide_sync :: "'w provider \<Rightarrow> kwargs \<Rightarrow> 'w \<Rightarrow> (exn + pyobj) \<times> 'w" where
  "provide_sync (FactoryProvider c f t d) kwargs w = f_call f kwargs w"
| "provide_sync (ObjectProvider ob t d) kwargs w = (Inr ob, w)"

text \<open>
  \<open>provide(kwargs)\<close>: for a coroutine function \<open>await self.impl(**kwargs)\<close>, the
  call and then the await of what it returned; else it delegates to
  \<open>provide_sync\<close>.
\<close>

fun provide :: "'w provider \<Rightarrow> kwargs \<Rightarrow> 'w \<Rightarrow> (exn + pyobj) \<times> 'w" where
  "provide (FactoryProvider c f t d) kwargs w =
     (if is_async (FactoryProvider c f t d)
      then (case f_call f kwargs w of
              (Inl e, w') \<Rightarrow> (Inl e, w')
            | (Inr awaitable, w') \<Rightarrow> f_await f awaitable w')
      else provide_sync (FactoryProvider c f t d) kwargs w)"
| "provide (ObjectProvider ob t d) kwargs w = (Inr ob, w)"

text \<open>
  \<open>type_hints(context)\<close>: \<open>Scoped\<close> drops the \<open>"return"\<close> entry of the provider's
  hints; \<open>Object\<close> returns its class attribute \<open>_type_hints = {}\<close>.
\<close>

fun type_hints :: "'w provider \<Rightarrow> exn + (string \<times> ty) list" where
  "type_hints (FactoryProvider c f t d) =
     (case f_provider_type_hints f of
        Inl e \<Rightarrow> Inl e
      | Inr hints \<Rightarrow> Inr (filter (\<lambda>(name, hint). name \<noteq> ''return'') hints))"
| "type_hints (ObjectProvider ob t d) = Inr []"

text \<open>
  \<open>Provider.collect_dependencies(context)\<close>: the cached tuple when the attribute
  is set, else the tuple is computed, stored on the provider and returned.
\<close>

definition provider_collect_dependencies ::
  "'w provider \<Rightarrow> 'w provider \<times> (exn + dependency list)" where
  "provider_collect_dependencies p =
     (case cached_dependencies p of
        Some deps \<Rightarrow> (p, Inr deps)
      | None \<Rightarrow>
          (case type_hints p of
             Inl e \<Rightarrow> (p, Inl e)
           | Inr hints \<Rightarrow>
               (let deps = collect_dependencies hints
                in (set_cached_dependencies p deps, Inr deps))))"

section \<open>aioinject/_store.py\<close>

text \<open>
  \<open>InstanceStore\<close>: the cache and the two exit stacks. \<open>SingletonStore\<close> extends
  it with two tables of lazily created locks (\<open>collections.defaultdict\<close>); a lock
  is represented by whether it is held.
\<close>

record store =
  cache :: "ty \<rightharpoonup> pyobj"
  exit_stack :: AsyncExitStack
  sync_exit_stack :: ExitStack

record singleton_store = store +
  locks :: "ty \<rightharpoonup> bool"
  sync_locks :: "ty \<rightharpoonup> bool"

definition InstanceStore_init :: store where
  "InstanceStore_init = \<lparr>cache = Map.empty, exit_stack = [], sync_exit_stack = []\<rparr>"

definition SingletonStore_init :: singleton_store where
  "SingletonStore_init =
     \<lparr>cache = Map.empty, exit_stack = [], sync_exit_stack = [],
      locks = Map.empty, sync_locks = Map.empty\<rparr>"

text \<open>\<open>get(provider)\<close>: \<open>None\<close> is the sentinel \<open>NotInCache.sentinel\<close>.\<close>

definition get :: "'a store_scheme \<Rightarrow> 'w provider \<Rightarrow> pyobj option" where
  "get s provider = cache s (provider_type provider)"

definition add :: "'a store_scheme \<Rightarrow> 'w provider \<Rightarrow> pyobj \<Rightarrow> 'a store_scheme" where
  "add s provider obj =
     (if lifetime provider \<noteq> transient
      then s\<lparr>cache := (cache s)(provider_type provider \<mapsto> obj)\<rparr>
      else s)"

text \<open>
  \<open>InstanceStore.lock\<close> and \<open>sync_lock\<close> return
  \<open>contextlib.nullcontext(provider.type_ not in self._cache)\<close>: the flag is
  computed at the call and entering the context yields it.
\<close>

definition lock :: "store \<Rightarrow> 'w provider \<Rightarrow> bool" where
  "lock s provider = (provider_type provider \<notin> dom (cache s))"

definition sync_lock :: "store \<Rightarrow> 'w provider \<Rightarrow> bool" where
  "sync_lock s provider = (provider_type provider \<notin> dom (cache s))"

definition enter_context :: "'a store_scheme \<Rightarrow> pyobj \<Rightarrow> 'a store_scheme \<times> (exn + pyobj)" where
  "enter_context s obj =
     (let (stack, r) = enter_context_maybe obj (exit_stack s)
      in (s\<lparr>exit_stack := stack\<rparr>, r))"

definition enter_sync_context :: "'a store_scheme \<Rightarrow> pyobj \<Rightarrow> 'a store_scheme \<times> (exn + pyobj)" where
  "enter_sync_context s obj =
     (let (stack, r) = enter_sync_context_maybe obj (sync_exit_stack s)
      in (s\<lparr>sync_exit_stack := stack\<rparr>, r))"

text \<open>
  \<open>__aexit__\<close> and \<open>__exit__\<close> unwind one exit stack each and return \<open>None\<close>,
  whatever the stack's own \<open>__exit__\<close> returned; the result is the store, the
  release calls made, and the exception raised, if any.
\<close>

definition store_aexit ::
  "'a store_scheme \<Rightarrow> exn option \<Rightarrow> 'a store_scheme \<times> release_event list \<times> exn option" where
  "store_aexit s exc_val =
     (let (stack, tr, r) = AsyncExitStack_aexit (exit_stack s) exc_val
      in (s\<lparr>exit_stack := stack\<rparr>, tr, case r of Inl e \<Rightarrow> Some e | Inr _ \<Rightarrow> None))"

definition aclose :: "'a store_scheme \<Rightarrow> 'a store_scheme \<times> release_event list \<times> exn option" where
  "aclose s = store_aexit s None"

definition store_exit ::
  "'a store_scheme \<Rightarrow> exn option \<Rightarrow> 'a store_scheme \<times> release_event list \<times> exn option" where
  "store_exit s exc_val =
     (let (stack, tr, r) = ExitStack_exit (sync_exit_stack s) exc_val
      in (s\<lparr>sync_exit_stack := stack\<rparr>, tr, case r of Inl e \<Rightarrow> Some e | Inr _ \<Rightarrow> None))"

definition close :: "'a store_scheme \<Rightarrow> 'a store_scheme \<times> release_event list \<times> exn option" where
  "close s = store_exit s None"

subsection \<open>SingletonStore.lock and SingletonStore.sync_lock\<close>

text \<open>
  The two methods are generator-based context managers with the same body over
  their own lock table. Entering one runs the generator up to its \<open>yield\<close>, and
  that run can be suspended at the acquisition of the lock, while other callers
  change the store. The generator is therefore modelled by its three segments:
  from the call to the first \<open>yield\<close> or to the acquisition; from the granted
  acquisition, on the store as it is then, to the \<open>yield\<close> under the lock; and
  the exit, which leaves the \<open>with\<close> block and releases the lock.
\<close>

datatype lock_progress = Yield bool | Acquire ty

text \<open>The first segment is the same for both methods and touches no lock.\<close>

definition lock_start :: "singleton_store \<Rightarrow> 'w provider \<Rightarrow> lock_progress" where
  "lock_start s provider =
     (if provider_type provider \<notin> dom (cache s) then Acquire (provider_type provider)
      else Yield False)"

text \<open>Whether a lock of a table can be acquired now: a missing lock is created free.\<close>

definition lock_free :: "(ty \<rightharpoonup> bool) \<Rightarrow> ty \<Rightarrow> bool" where
  "lock_free table k = (table k \<noteq> Some True)"

definition SingletonStore_lock_acquired ::
  "singleton_store \<Rightarrow> 'w provider \<Rightarrow> singleton_store \<times> bool" where
  "SingletonStore_lock_acquired s provider =
     (s\<lparr>locks := (locks s)(provider_type provider \<mapsto> True)\<rparr>,
      provider_type provider \<notin> dom (cache s))"

definition SingletonStore_lock_release :: "singleton_store \<Rightarrow> 'w provider \<Rightarrow> singleton_store" where
  "SingletonStore_lock_release s provider =
     s\<lparr>locks := (locks s)(provider_type provider \<mapsto> False)\<rparr>"

definition SingletonStore_sync_lock_acquired ::
  "singleton_store \<Rightarrow> 'w provider \<Rightarrow> singleton_store \<times> bool" where
  "SingletonStore_sync_lock_acquired s provider =
     (s\<lparr>sync_locks := (sync_locks s)(provider_type provider \<mapsto> True)\<rparr>,
      provider_type provider \<notin> dom (cache s))"

definition SingletonStore_sync_lock_release :: "singleton_store \<Rightarrow> 'w provider \<Rightarrow> singleton_store" where
  "SingletonStore_sync_lock_release s provider =
     s\<lparr>sync_locks := (sync_locks s)(provider_type provider \<mapsto> False)\<rparr>"

text \<open>
  Entering the context when no other caller runs in between: the yielded flag
  and the lock held, if any; \<open>None\<close> when the lock is held and the caller waits.
\<close>

definition SingletonStore_lock ::
  "singleton_store \<Rightarrow> 'w provider \<Rightarrow> (singleton_store \<times> bool \<times> ty option) option" where
  "SingletonStore_lock s provider =
     (case lock_start s provider of
        Yield b \<Rightarrow> Some (s, b, None)
      | Acquire k \<Rightarrow>
          if lock_free (locks s) k
          then (let (s', b) = SingletonStore_lock_acquired s provider in Some (s', b, Some k))
          else None)"

definition SingletonStore_sync_lock ::
  "singleton_store \<Rightarrow> 'w provider \<Rightarrow> (singleton_store \<times> bool \<times> ty option) option" where
  "SingletonStore_sync_lock s provider =
     (case lock_start s provider of
        Yield b \<Rightarrow> Some (s, b, None)
      | Acquire k \<Rightarrow>
          if lock_free (sync_locks s) k
          then (let (s', b) = SingletonStore_sync_lock_acquired s provider in Some (s', b, Some k))
          else None)"

section \<open>Notions used to state the properties\<close>

text \<open>
  The exception that a sequence of release calls leaves to be raised: the one
  raised by the last call that did anything but return false, if that call raised.
\<close>

definition raised_by :: "release_event list \<Rightarrow> exn option" where
  "raised_by tr =
     (case dropWhile (\<lambda>ev. release_outcome ev = Returns False) (rev tr) of
        [] \<Rightarrow> None
      | ev # _ \<Rightarrow> (case release_outcome ev of Raises e \<Rightarrow> Some e | Returns _ \<Rightarrow> None))"

text \<open>
  The exception being handled after a release call, given the one that was
  handed to the call and what the call did.
\<close>

fun pending_after :: "exn option \<Rightarrow> exit_result \<Rightarrow> exn option" where
  "pending_after exc (Returns True) = None"
| "pending_after exc (Returns False) = exc"
| "pending_after exc (Raises e) = Some e"

text \<open>The exceptions raised by the release calls of a trace, in release order.\<close>

fun failures :: "release_event list \<Rightarrow> exn list" where
  "failures [] = []"
| "failures (Released owner exc (Raises e) # tr) = e # failures tr"
| "failures (Released owner exc (Returns b) # tr) = failures tr"

text \<open>A store after a sequence of \<open>add\<close> calls.\<close>

fun add_all :: "'a store_scheme \<Rightarrow> ('w provider \<times> pyobj) list \<Rightarrow> 'a store_scheme" where
  "add_all s [] = s"
| "add_all s ((provider, obj) # adds) = add_all (add s provider obj) adds"

section \<open>Example objects\<close>

definition plain_object :: "nat \<Rightarrow> pyobj" where
  "plain_object n = PyObj n False False None None"

text \<open>
  A context manager made by \<open>contextlib.contextmanager\<close> (an instance of
  \<open>ContextDecorator\<close>), one made by \<open>contextlib.asynccontextmanager\<close>, and an
  object of a class that only defines \<open>__enter__\<close> and \<open>__exit__\<close>.
\<close>

definition sync_resource :: "nat \<Rightarrow> (exn option \<Rightarrow> exit_result) \<Rightarrow> pyobj" where
  "sync_resource n exit_method = PyObj n True False (Some (Inr (plain_object n), exit_method)) None"

definition async_resource :: "nat \<Rightarrow> (exn option \<Rightarrow> exit_result) \<Rightarrow> pyobj" where
  "async_resource n exit_method = PyObj n False True None (Some (Inr (plain_object n), exit_method))"

definition plain_context_manager :: "nat \<Rightarrow> (exn option \<Rightarrow> exit_result) \<Rightarrow> pyobj" where
  "plain_context_manager n exit_method =
     PyObj n False False (Some (Inr (plain_object n), exit_method)) None"

text \<open>Release actions: one that returns false, one that raises, one that swallows
  the exception it is given.\<close>

definition exit_quietly :: "exn option \<Rightarrow> exit_result" where
  "exit_quietly exc = Returns False"

definition exit_raising :: "exn \<Rightarrow> exn option \<Rightarrow> exit_result" where
  "exit_raising e exc = Raises e"

definition exit_suppressing :: "exn option \<Rightarrow> exit_result" where
  "exit_suppressing exc = Returns (exc \<noteq> None)"

text \<open>The stores obtained from a new one by entering the given objects in order.\<close>

fun entered_sync :: "store \<Rightarrow> pyobj list \<Rightarrow> store" where
  "entered_sync s [] = s"
| "entered_sync s (obj # objs) = entered_sync (fst (enter_sync_context s obj)) objs"

fun entered_async :: "store \<Rightarrow> pyobj list \<Rightarrow> store" where
  "entered_async s [] = s"
| "entered_async s (obj # objs) = entered_async (fst (enter_context s obj)) objs"

text \<open>
  Example factories. The state of the world is the number of times a factory's
  body has run. \<open>make_counter\<close> is annotated \<open>-> Counter\<close> and returns a new
  object; \<open>failing_factory\<close> raises; \<open>failing_coroutine_factory\<close> is an
  \<open>async def\<close> whose body raises: calling it returns the coroutine object
  \<open>plain_object 99\<close> and awaiting that runs the body;
  \<open>unannotated_factory\<close> has no return annotation;
  the return annotation of \<open>forward_ref_factory\<close> names a type that is not
  defined; \<open>forward_param_factory\<close> has no return annotation and a parameter
  annotated with an undefined name.
\<close>

definition make_counter :: "nat factory" where
  "make_counter =
     \<lparr>f_qualname = ''make_counter'',
      f_as_type = TClass ''function'',
      f_isclass = False,
      f_get_origin = None,
      f_type_hints = Inr [(''return'', TClass ''Counter'')],
      f_annotations = [(''return'', ''Counter'')],
      f_get_return_annotation = (\<lambda>a. Inr (TClass ''Counter'')),
      f_isasyncgenfunction = False,
      f_isgeneratorfunction = False,
      f_iscoroutinefunction = False,
      f_self = None,
      f_provider_type_hints = Inr [(''return'', TClass ''Counter'')],
      f_call = (\<lambda>kwargs n. (Inr (plain_object n), Suc n)),
      f_await = (\<lambda>obj n. (Inl (TypeError ''object can't be used in 'await' expression''), n))\<rparr>"

definition failing_factory :: "nat factory" where
  "failing_factory = make_counter\<lparr>f_call := (\<lambda>kwargs n. (Inl (UserError 1), Suc n))\<rparr>"

definition failing_coroutine_factory :: "nat factory" where
  "failing_coroutine_factory =
     make_counter\<lparr>f_iscoroutinefunction := True,
                  f_call := (\<lambda>kwargs n. (Inr (plain_object 99), n)),
                  f_await := (\<lambda>obj n. (Inl (UserError 1), Suc n))\<rparr>"

definition unannotated_factory :: "nat factory" where
  "unannotated_factory =
     make_counter\<lparr>f_qualname := ''make'', f_type_hints := Inr [], f_annotations := []\<rparr>"

definition forward_ref_factory :: "nat factory" where
  "forward_ref_factory =
     make_counter\<lparr>f_qualname := ''make'', f_type_hints := Inl NameError,
                  f_annotations := [(''return'', ''Undefined'')],
                  f_get_return_annotation := (\<lambda>a. Inl NameError)\<rparr>"

definition forward_param_factory :: "nat factory" where
  "forward_param_factory =
     make_counter\<lparr>f_qualname := ''make'', f_type_hints := Inl NameError,
                  f_annotations := [(''a'', ''Undefined'')],
                  f_get_return_annotation := (\<lambda>a. Inl NameError)\<rparr>"

text \<open>Two providers of the same type, one transient and one scoped, and a
  singleton provider.\<close>

definition transient_counter :: "nat provider" where
  "transient_counter = FactoryProvider Transient make_counter (TClass ''Counter'') None"

definition scoped_counter :: "nat provider" where
  "scoped_counter = FactoryProvider Scoped make_counter (TClass ''Counter'') None"

definition singleton_counter :: "nat provider" where
  "singleton_counter = FactoryProvider Singleton make_counter (TClass ''Counter'') None"

section \<open>The exit loop\<close>

lemma exit_loop_acc:
  "exit_loop cbs v tr = (fst (exit_loop cbs v []), tr @ snd (exit_loop cbs v []))"
proof (induction cbs arbitrary: v tr)
  case Nil
  show ?case by simp
next
  case (Cons cb cbs)
  let ?ev = "Released (cb_owner cb) (exc_details v) (cb_exit cb (exc_details v))"
  have "exit_loop (cb # cbs) v tr = exit_loop cbs (exit_step cb v) (tr @ [?ev])" by simp
  also have "\<dots> = (fst (exit_loop cbs (exit_step cb v) []),
                      (tr @ [?ev]) @ snd (exit_loop cbs (exit_step cb v) []))"
    by (rule Cons.IH)
  also have "\<dots> = (fst (exit_loop (cb # cbs) v []), tr @ snd (exit_loop (cb # cbs) v []))"
    using Cons.IH[of "exit_step cb v" "[?ev]"] by simp
  finally show ?case .
qed

lemma exit_loop_Cons:
  "exit_loop (cb # cbs) v [] =
     (fst (exit_loop cbs (exit_step cb v) []),
      Released (cb_owner cb) (exc_details v) (cb_exit cb (exc_details v))
        # snd (exit_loop cbs (exit_step cb v) []))"
  using exit_loop_acc[of cbs "exit_step cb v"
          "[Released (cb_owner cb) (exc_details v) (cb_exit cb (exc_details v))]"]
  by simp

lemma exit_loop_owners:
  "map released_owner (snd (exit_loop cbs v [])) = map cb_owner cbs"
proof (induction cbs arbitrary: v)
  case Nil
  show ?case by simp
next
  case (Cons cb cbs)
  show ?case unfolding exit_loop_Cons using Cons.IH[of "exit_step cb v"] by simp
qed

lemma raised_by_Cons:
  "raised_by (ev # tr) =
     (if \<forall>x \<in> set tr. release_outcome x = Returns False
      then (case release_outcome ev of Raises e \<Rightarrow> Some e | Returns _ \<Rightarrow> None)
      else raised_by tr)"
proof (cases "\<forall>x \<in> set tr. release_outcome x = Returns False")
  case True
  then show ?thesis
    by (cases "release_outcome ev") (auto simp: raised_by_def dropWhile_append split: bool.splits)
next
  case False
  then obtain x xs where
    "dropWhile (\<lambda>ev. release_outcome ev = Returns False) (rev tr) = x # xs"
    by (cases "dropWhile (\<lambda>ev. release_outcome ev = Returns False) (rev tr)") auto
  with False show ?thesis
    by (auto simp: raised_by_def dropWhile_append)
qed

lemma exit_loop_exc:
  "exc_details (fst (exit_loop cbs v [])) =
      (if \<forall>x \<in> set (snd (exit_loop cbs v [])). release_outcome x = Returns False
       then exc_details v else raised_by (snd (exit_loop cbs v [])))
   \<and> pending_raise (fst (exit_loop cbs v [])) =
      (if \<forall>x \<in> set (snd (exit_loop cbs v [])). release_outcome x = Returns False
       then pending_raise v else raised_by (snd (exit_loop cbs v [])) \<noteq> None)"
proof (induction cbs arbitrary: v)
  case Nil
  show ?case by simp
next
  case (Cons cb cbs)
  show ?case
    unfolding exit_loop_Cons raised_by_Cons fst_conv snd_conv
    using Cons.IH[of "exit_step cb v"]
    by (cases "cb_exit cb (exc_details v)") (auto simp: exit_step_def split: bool.splits)
qed

lemma raised_by_quiet:
  "\<forall>x \<in> set tr. release_outcome x = Returns False \<Longrightarrow> raised_by tr = None"
proof -
  assume "\<forall>x \<in> set tr. release_outcome x = Returns False"
  then have d: "dropWhile (\<lambda>ev. release_outcome ev = Returns False) (rev tr) = []"
    by simp
  show ?thesis unfolding raised_by_def d by simp
qed

lemma exit_loop_result:
  assumes "exc_details v = None" and "\<not> pending_raise v"
  shows "(if pending_raise (fst (exit_loop cbs v []))
          then exc_details (fst (exit_loop cbs v [])) else None)
         = raised_by (snd (exit_loop cbs v []))"
  using assms exit_loop_exc[of cbs v] raised_by_quiet[of "snd (exit_loop cbs v [])"]
  by (cases "\<forall>x \<in> set (snd (exit_loop cbs v [])). release_outcome x = Returns False") auto

lemma exit_step_exc:
  "exc_details (exit_step cb v) = pending_after (exc_details v) (cb_exit cb (exc_details v))"
  by (cases "cb_exit cb (exc_details v)") (auto simp: exit_step_def split: bool.splits)

lemma exit_loop_calls:
  "map release_outcome (snd (exit_loop cbs v []))
     = map (\<lambda>(cb, ev). cb_exit cb (released_with ev)) (zip cbs (snd (exit_loop cbs v [])))
   \<and> map released_with (snd (exit_loop cbs v []))
     = take (length cbs)
         (exc_details v
          # map (\<lambda>ev. pending_after (released_with ev) (release_outcome ev))
              (snd (exit_loop cbs v [])))"
proof (induction cbs arbitrary: v)
  case Nil
  show ?case by simp
next
  case (Cons cb cbs)
  show ?case
    unfolding exit_loop_Cons snd_conv
    using Cons.IH[of "exit_step cb v"]
    by (simp add: exit_step_exc)
qed

lemma exit_loop_three:
  assumes "exc_details v = None"
    and "e1 = pending_after None (cb_exit c None)"
    and "e2 = pending_after e1 (cb_exit b e1)"
  shows "take 3 (snd (exit_loop (c # b # a # older) v []))
         = [Released (cb_owner c) None (cb_exit c None),
            Released (cb_owner b) e1 (cb_exit b e1),
            Released (cb_owner a) e2 (cb_exit a e2)]"
  using assms by (simp add: exit_loop_Cons exit_step_exc del: exit_loop.simps)

section \<open>Closing a store\<close>

lemma close_trace:
  "fst (snd (close s)) =
     snd (exit_loop (rev (sync_exit_stack s))
            \<lparr>exc_details = None, suppressed_exc = False, pending_raise = False\<rparr> [])"
  by (simp add: close_def store_exit_def ExitStack_exit_def split_beta)

lemma aclose_trace:
  "fst (snd (aclose s)) =
     snd (exit_loop (rev (map snd (exit_stack s)))
            \<lparr>exc_details = None, suppressed_exc = False, pending_raise = False\<rparr> [])"
  by (simp add: aclose_def store_aexit_def AsyncExitStack_aexit_def split_beta)

lemma close_owners:
  "map released_owner (fst (snd (close s))) = rev (map cb_owner (sync_exit_stack s))"
  by (simp add: close_trace exit_loop_owners rev_map)

lemma aclose_owners:
  "map released_owner (fst (snd (aclose s))) = rev (map (cb_owner \<circ> snd) (exit_stack s))"
  by (simp add: aclose_trace exit_loop_owners rev_map)

lemma enter_sync_context_registered:
  assumes "isinstance_ContextDecorator obj" and "cm_protocol obj = Some (Inr r, ex)"
  shows "enter_sync_context s obj
         = (s\<lparr>sync_exit_stack := sync_exit_stack s @ [\<lparr>cb_owner = obj_id obj, cb_exit = ex\<rparr>]\<rparr>, Inr r)"
  using assms
  by (simp add: enter_sync_context_def enter_sync_context_maybe_def ExitStack_enter_context_def)

lemma enter_context_registered:
  assumes "(isinstance_ContextDecorator obj \<and> cm_protocol obj = Some (Inr r, ex))
           \<or> (\<not> isinstance_ContextDecorator obj \<and> isinstance_AsyncContextDecorator obj
               \<and> acm_protocol obj = Some (Inr r, ex))"
  shows "map snd (exit_stack (fst (enter_context s obj)))
           = map snd (exit_stack s) @ [\<lparr>cb_owner = obj_id obj, cb_exit = ex\<rparr>]
         \<and> sync_exit_stack (fst (enter_context s obj)) = sync_exit_stack s
         \<and> snd (enter_context s obj) = Inr r"
  using assms
  by (auto simp: enter_context_def enter_context_maybe_def AsyncExitStack_enter_context_def
        AsyncExitStack_enter_async_context_def)

text \<open>
  Claim C4, as the code has it. When resources \<open>A\<close>, \<open>B\<close>, \<open>C\<close> were entered in
  that order into a store, all three through \<open>enter_sync_context\<close>, \<open>close\<close>
  calls their release actions in the order \<open>C\<close>, \<open>B\<close>, \<open>A\<close>, each with the
  exception left by the releases before it, and only then those of the resources
  entered earlier; the same holds for three resources all entered through
  \<open>enter_context\<close> and \<open>aclose\<close>. The two paths keep separate stacks: \<open>close\<close>
  leaves what \<open>enter_context\<close> registered untouched, and \<open>aclose\<close> what
  \<open>enter_sync_context\<close> registered. A resource is a value that the store
  registers: an instance of \<open>ContextDecorator\<close> (or, on the asynchronous path,
  of \<open>AsyncContextDecorator\<close>) whose \<open>__enter__\<close> returned.
\<close>

theorem close_releases_in_reverse_order:
  "(isinstance_ContextDecorator A \<and> cm_protocol A = Some (Inr a, exit_A)
    \<and> isinstance_ContextDecorator B \<and> cm_protocol B = Some (Inr b, exit_B)
    \<and> isinstance_ContextDecorator C \<and> cm_protocol C = Some (Inr c, exit_C)
    \<and> s1 = fst (enter_sync_context s0 A)
    \<and> s2 = fst (enter_sync_context s1 B)
    \<and> s3 = fst (enter_sync_context s2 C)
    \<and> e1 = pending_after None (exit_C None)
    \<and> e2 = pending_after e1 (exit_B e1)
    \<longrightarrow> take 3 (fst (snd (close s3)))
          = [Released (obj_id C) None (exit_C None),
             Released (obj_id B) e1 (exit_B e1),
             Released (obj_id A) e2 (exit_A e2)]
      \<and> map released_owner (fst (snd (close s3)))
          = [obj_id C, obj_id B, obj_id A] @ rev (map cb_owner (sync_exit_stack s0))
      \<and> exit_stack (fst (close s3)) = exit_stack s0)
   \<and> (((isinstance_ContextDecorator A \<and> cm_protocol A = Some (Inr a, exit_A))
         \<or> (\<not> isinstance_ContextDecorator A \<and> isinstance_AsyncContextDecorator A
             \<and> acm_protocol A = Some (Inr a, exit_A)))
    \<and> ((isinstance_ContextDecorator B \<and> cm_protocol B = Some (Inr b, exit_B))
         \<or> (\<not> isinstance_ContextDecorator B \<and> isinstance_AsyncContextDecorator B
             \<and> acm_protocol B = Some (Inr b, exit_B)))
    \<and> ((isinstance_ContextDecorator C \<and> cm_protocol C = Some (Inr c, exit_C))
         \<or> (\<not> isinstance_ContextDecorator C \<and> isinstance_AsyncContextDecorator C
             \<and> acm_protocol C = Some (Inr c, exit_C)))
    \<and> s1 = fst (enter_context s0 A)
    \<and> s2 = fst (enter_context s1 B)
    \<and> s3 = fst (enter_context s2 C)
    \<and> e1 = pending_after None (exit_C None)
    \<and> e2 = pending_after e1 (exit_B e1)
    \<longrightarrow> take 3 (fst (snd (aclose s3)))
          = [Released (obj_id C) None (exit_C None),
             Released (obj_id B) e1 (exit_B e1),
             Released (obj_id A) e2 (exit_A e2)]
      \<and> map released_owner (fst (snd (aclose s3)))
          = [obj_id C, obj_id B, obj_id A] @ rev (map (cb_owner \<circ> snd) (exit_stack s0))
      \<and> sync_exit_stack (fst (aclose s3)) = sync_exit_stack s0)"
proof (intro conjI impI)
  let ?v0 = "\<lparr>exc_details = None, suppressed_exc = False, pending_raise = False\<rparr>"
  let ?a = "\<lparr>cb_owner = obj_id A, cb_exit = exit_A\<rparr>"
  let ?b = "\<lparr>cb_owner = obj_id B, cb_exit = exit_B\<rparr>"
  let ?c = "\<lparr>cb_owner = obj_id C, cb_exit = exit_C\<rparr>"
  assume h: "isinstance_ContextDecorator A \<and> cm_protocol A = Some (Inr a, exit_A)
    \<and> isinstance_ContextDecorator B \<and> cm_protocol B = Some (Inr b, exit_B)
    \<and> isinstance_ContextDecorator C \<and> cm_protocol C = Some (Inr c, exit_C)
    \<and> s1 = fst (enter_sync_context s0 A)
    \<and> s2 = fst (enter_sync_context s1 B)
    \<and> s3 = fst (enter_sync_context s2 C)
    \<and> e1 = pending_after None (exit_C None)
    \<and> e2 = pending_after e1 (exit_B e1)"
  have st: "sync_exit_stack s3 = sync_exit_stack s0 @ [?a, ?b, ?c]"
    and ex: "exit_stack s3 = exit_stack s0"
    using h by (simp_all add: enter_sync_context_registered)
  have rv: "rev (sync_exit_stack s3) = ?c # ?b # ?a # rev (sync_exit_stack s0)"
    by (simp add: st)
  show "take 3 (fst (snd (close s3)))
          = [Released (obj_id C) None (exit_C None),
             Released (obj_id B) e1 (exit_B e1),
             Released (obj_id A) e2 (exit_A e2)]"
    unfolding close_trace rv
    using exit_loop_three[of ?v0 e1 ?c e2 ?b ?a "rev (sync_exit_stack s0)"] h by simp
  show "map released_owner (fst (snd (close s3)))
          = [obj_id C, obj_id B, obj_id A] @ rev (map cb_owner (sync_exit_stack s0))"
    by (simp add: close_owners st)
  show "exit_stack (fst (close s3)) = exit_stack s0"
    by (simp add: ex close_def store_exit_def split_beta)
next
  let ?v0 = "\<lparr>exc_details = None, suppressed_exc = False, pending_raise = False\<rparr>"
  let ?a = "\<lparr>cb_owner = obj_id A, cb_exit = exit_A\<rparr>"
  let ?b = "\<lparr>cb_owner = obj_id B, cb_exit = exit_B\<rparr>"
  let ?c = "\<lparr>cb_owner = obj_id C, cb_exit = exit_C\<rparr>"
  assume h: "((isinstance_ContextDecorator A \<and> cm_protocol A = Some (Inr a, exit_A))
         \<or> (\<not> isinstance_ContextDecorator A \<and> isinstance_AsyncContextDecorator A
             \<and> acm_protocol A = Some (Inr a, exit_A)))
    \<and> ((isinstance_ContextDecorator B \<and> cm_protocol B = Some (Inr b, exit_B))
         \<or> (\<not> isinstance_ContextDecorator B \<and> isinstance_AsyncContextDecorator B
             \<and> acm_protocol B = Some (Inr b, exit_B)))
    \<and> ((isinstance_ContextDecorator C \<and> cm_protocol C = Some (Inr c, exit_C))
         \<or> (\<not> isinstance_ContextDecorator C \<and> isinstance_AsyncContextDecorator C
             \<and> acm_protocol C = Some (Inr c, exit_C)))
    \<and> s1 = fst (enter_context s0 A)
    \<and> s2 = fst (enter_context s1 B)
    \<and> s3 = fst (enter_context s2 C)
    \<and> e1 = pending_after None (exit_C None)
    \<and> e2 = pending_after e1 (exit_B e1)"
  have a: "map snd (exit_stack s1) = map snd (exit_stack s0) @ [?a]
           \<and> sync_exit_stack s1 = sync_exit_stack s0"
    using h enter_context_registered[of A a exit_A s0] by blast
  have b: "map snd (exit_stack s2) = map snd (exit_stack s1) @ [?b]
           \<and> sync_exit_stack s2 = sync_exit_stack s1"
    using h enter_context_registered[of B b exit_B s1] by blast
  have c: "map snd (exit_stack s3) = map snd (exit_stack s2) @ [?c]
           \<and> sync_exit_stack s3 = sync_exit_stack s2"
    using h enter_context_registered[of C c exit_C s2] by blast
  have st: "map snd (exit_stack s3) = map snd (exit_stack s0) @ [?a, ?b, ?c]"
    using a b c by simp
  have rv: "rev (map snd (exit_stack s3)) = ?c # ?b # ?a # rev (map snd (exit_stack s0))"
    by (simp add: st)
  show "take 3 (fst (snd (aclose s3)))
          = [Released (obj_id C) None (exit_C None),
             Released (obj_id B) e1 (exit_B e1),
             Released (obj_id A) e2 (exit_A e2)]"
    unfolding aclose_trace rv
    using exit_loop_three[of ?v0 e1 ?c e2 ?b ?a "rev (map snd (exit_stack s0))"] h by simp
  have "map (cb_owner \<circ> snd) (exit_stack s3) = map cb_owner (map snd (exit_stack s3))"
    by simp
  also have "\<dots> = map (cb_owner \<circ> snd) (exit_stack s0) @ [obj_id A, obj_id B, obj_id C]"
    unfolding st by simp
  finally show "map released_owner (fst (snd (aclose s3)))
          = [obj_id C, obj_id B, obj_id A] @ rev (map (cb_owner \<circ> snd) (exit_stack s0))"
    by (simp add: aclose_owners)
  show "sync_exit_stack (fst (aclose s3)) = sync_exit_stack s0"
    using a b c by (simp add: aclose_def store_aexit_def split_beta)
qed

text \<open>
  Three concrete resources: the last one entered fails to release, the second
  swallows that failure, and the first is released with nothing pending.
\<close>

theorem close_releases_in_reverse_order_witness:
  "take 3 (fst (snd (close (entered_sync InstanceStore_init
        [sync_resource 1 exit_quietly, sync_resource 2 exit_suppressing,
         sync_resource 3 (exit_raising (UserError 9))]))))
   = [Released 3 None (Raises (UserError 9)),
      Released 2 (Some (UserError 9)) (Returns True),
      Released 1 None (Returns False)]
   \<and> take 3 (fst (snd (aclose (entered_async InstanceStore_init
        [sync_resource 1 exit_quietly, async_resource 2 exit_suppressing,
         async_resource 3 (exit_raising (UserError 9))]))))
   = [Released 3 None (Raises (UserError 9)),
      Released 2 (Some (UserError 9)) (Returns True),
      Released 1 None (Returns False)]"
proof
  let ?A = "sync_resource 1 exit_quietly"
  let ?B = "sync_resource 2 exit_suppressing"
  let ?C = "sync_resource 3 (exit_raising (UserError 9))"
  let ?s1 = "fst (enter_sync_context InstanceStore_init ?A)"
  let ?s2 = "fst (enter_sync_context ?s1 ?B)"
  let ?s3 = "fst (enter_sync_context ?s2 ?C)"
  have p: "isinstance_ContextDecorator ?A \<and> cm_protocol ?A = Some (Inr (plain_object 1), exit_quietly)
     \<and> isinstance_ContextDecorator ?B \<and> cm_protocol ?B = Some (Inr (plain_object 2), exit_suppressing)
     \<and> isinstance_ContextDecorator ?C
     \<and> cm_protocol ?C = Some (Inr (plain_object 3), exit_raising (UserError 9))"
    by (simp add: sync_resource_def)
  have e: "Some (UserError 9) = pending_after None (exit_raising (UserError 9) None)
     \<and> None = pending_after (Some (UserError 9)) (exit_suppressing (Some (UserError 9)))"
    by (simp add: exit_raising_def exit_suppressing_def)
  have ids: "obj_id ?A = 1 \<and> obj_id ?B = 2 \<and> obj_id ?C = 3"
    by (simp add: sync_resource_def)
  from close_releases_in_reverse_order[where A = ?A and a = "plain_object 1" and exit_A = exit_quietly
         and B = ?B and b = "plain_object 2" and exit_B = exit_suppressing
         and C = ?C and c = "plain_object 3" and exit_C = "exit_raising (UserError 9)"
         and ?s0.0 = InstanceStore_init and ?s1.0 = ?s1 and ?s2.0 = ?s2 and ?s3.0 = ?s3
         and ?e1.0 = "Some (UserError 9)" and ?e2.0 = None] p e
  have "take 3 (fst (snd (close ?s3)))
          = [Released (obj_id ?C) None (exit_raising (UserError 9) None),
             Released (obj_id ?B) (Some (UserError 9)) (exit_suppressing (Some (UserError 9))),
             Released (obj_id ?A) None (exit_quietly None)]"
    by blast
  then show "take 3 (fst (snd (close (entered_sync InstanceStore_init [?A, ?B, ?C]))))
   = [Released 3 None (Raises (UserError 9)),
      Released 2 (Some (UserError 9)) (Returns True),
      Released 1 None (Returns False)]"
    using ids by (simp add: exit_raising_def exit_suppressing_def exit_quietly_def)
next
  let ?A = "sync_resource 1 exit_quietly"
  let ?B = "async_resource 2 exit_suppressing"
  let ?C = "async_resource 3 (exit_raising (UserError 9))"
  let ?s1 = "fst (enter_context InstanceStore_init ?A)"
  let ?s2 = "fst (enter_context ?s1 ?B)"
  let ?s3 = "fst (enter_context ?s2 ?C)"
  have p: "(isinstance_ContextDecorator ?A \<and> cm_protocol ?A = Some (Inr (plain_object 1), exit_quietly))
     \<and> (\<not> isinstance_ContextDecorator ?B \<and> isinstance_AsyncContextDecorator ?B
         \<and> acm_protocol ?B = Some (Inr (plain_object 2), exit_suppressing))
     \<and> (\<not> isinstance_ContextDecorator ?C \<and> isinstance_AsyncContextDecorator ?C
         \<and> acm_protocol ?C = Some (Inr (plain_object 3), exit_raising (UserError 9)))"
    by (simp add: sync_resource_def async_resource_def)
  have e: "Some (UserError 9) = pending_after None (exit_raising (UserError 9) None)
     \<and> None = pending_after (Some (UserError 9)) (exit_suppressing (Some (UserError 9)))"
    by (simp add: exit_raising_def exit_suppressing_def)
  have ids: "obj_id ?A = 1 \<and> obj_id ?B = 2 \<and> obj_id ?C = 3"
    by (simp add: sync_resource_def async_resource_def)
  from close_releases_in_reverse_order[where A = ?A and a = "plain_object 1" and exit_A = exit_quietly
         and B = ?B and b = "plain_object 2" and exit_B = exit_suppressing
         and C = ?C and c = "plain_object 3" and exit_C = "exit_raising (UserError 9)"
         and ?s0.0 = InstanceStore_init and ?s1.0 = ?s1 and ?s2.0 = ?s2 and ?s3.0 = ?s3
         and ?e1.0 = "Some (UserError 9)" and ?e2.0 = None] p e
  have "take 3 (fst (snd (aclose ?s3)))
          = [Released (obj_id ?C) None (exit_raising (UserError 9) None),
             Released (obj_id ?B) (Some (UserError 9)) (exit_suppressing (Some (UserError 9))),
             Released (obj_id ?A) None (exit_quietly None)]"
    by blast
  then show "take 3 (fst (snd (aclose (entered_async InstanceStore_init [?A, ?B, ?C]))))
   = [Released 3 None (Raises (UserError 9)),
      Released 2 (Some (UserError 9)) (Returns True),
      Released 1 None (Returns False)]"
    using ids by (simp add: exit_raising_def exit_suppressing_def exit_quietly_def)
qed

text \<open>
  Claim C4 as stated fails when the resources were not all entered through the
  same path. With \<open>A\<close> and \<open>C\<close> entered through \<open>enter_sync_context\<close> and \<open>B\<close>
  through \<open>enter_context\<close>, \<open>close\<close> releases \<open>C\<close> and \<open>A\<close> and never \<open>B\<close>,
  and \<open>aclose\<close> releases \<open>B\<close> alone.
\<close>

theorem mixed_entry_counterexample:
  "fst (snd (close
      (entered_sync (entered_async (entered_sync InstanceStore_init
         [sync_resource 1 exit_quietly]) [async_resource 2 exit_quietly])
         [sync_resource 3 exit_quietly])))
     = [Released 3 None (Returns False), Released 1 None (Returns False)]
   \<and> map released_owner (fst (snd (close
      (entered_sync (entered_async (entered_sync InstanceStore_init
         [sync_resource 1 exit_quietly]) [async_resource 2 exit_quietly])
         [sync_resource 3 exit_quietly]))))
     \<noteq> [3, 2, 1]
   \<and> fst (snd (aclose
      (entered_sync (entered_async (entered_sync InstanceStore_init
         [sync_resource 1 exit_quietly]) [async_resource 2 exit_quietly])
         [sync_resource 3 exit_quietly])))
     = [Released 2 None (Returns False)]"
  by (simp add: InstanceStore_init_def enter_sync_context_def enter_sync_context_maybe_def
        ExitStack_enter_context_def enter_context_def enter_context_maybe_def
        AsyncExitStack_enter_context_def AsyncExitStack_enter_async_context_def
        sync_resource_def async_resource_def close_def store_exit_def ExitStack_exit_def
        aclose_def store_aexit_def AsyncExitStack_aexit_def exit_step_def exit_quietly_def)

lemma close_result:
  "snd (snd (close s)) = raised_by (fst (snd (close s)))"
proof -
  let ?v0 = "\<lparr>exc_details = None, suppressed_exc = False, pending_raise = False\<rparr>"
  let ?r = "exit_loop (rev (sync_exit_stack s)) ?v0 []"
  have inv: "pending_raise (fst ?r) = (exc_details (fst ?r) \<noteq> None)"
    using exit_loop_exc[of "rev (sync_exit_stack s)" ?v0]
    by (auto simp: raised_by_quiet)
  have "snd (snd (close s)) = (if pending_raise (fst ?r) then exc_details (fst ?r) else None)"
    using inv
    by (auto simp: close_def store_exit_def ExitStack_exit_def split_beta split: option.splits)
  also have "\<dots> = raised_by (snd ?r)"
    by (rule exit_loop_result) simp_all
  finally show ?thesis by (simp add: close_trace)
qed

lemma aclose_result:
  "snd (snd (aclose s)) = raised_by (fst (snd (aclose s)))"
proof -
  let ?v0 = "\<lparr>exc_details = None, suppressed_exc = False, pending_raise = False\<rparr>"
  let ?r = "exit_loop (rev (map snd (exit_stack s))) ?v0 []"
  have inv: "pending_raise (fst ?r) = (exc_details (fst ?r) \<noteq> None)"
    using exit_loop_exc[of "rev (map snd (exit_stack s))" ?v0]
    by (auto simp: raised_by_quiet)
  have "snd (snd (aclose s)) = (if pending_raise (fst ?r) then exc_details (fst ?r) else None)"
    using inv
    by (auto simp: aclose_def store_aexit_def AsyncExitStack_aexit_def split_beta split: option.splits)
  also have "\<dots> = raised_by (snd ?r)"
    by (rule exit_loop_result) simp_all
  finally show ?thesis by (simp add: aclose_trace)
qed

text \<open>
  Claim C5, as the code has it. When release actions fail during close, every
  registered release is still attempted: each release action is called once, in
  reverse order of registration, with the exception that is pending at that
  moment, which is the one raised by the latest failing release unless a release
  after it returned true. The error that \<open>close\<close> (or \<open>aclose\<close>) then raises is
  the exception raised by the last release that did anything but return false,
  and there is none when that release returned true (it swallowed the exception
  it was given) or when no release raised. What is raised is that release's own
  exception, not an aggregate.
\<close>

theorem close_attempts_all_and_raises_last_failure:
  "map released_owner (fst (snd (close s))) = rev (map cb_owner (sync_exit_stack s))
   \<and> map release_outcome (fst (snd (close s)))
     = map (\<lambda>(cb, ev). cb_exit cb (released_with ev))
         (zip (rev (sync_exit_stack s)) (fst (snd (close s))))
   \<and> map released_with (fst (snd (close s)))
     = take (length (sync_exit_stack s))
         (None # map (\<lambda>ev. pending_after (released_with ev) (release_outcome ev))
                  (fst (snd (close s))))
   \<and> snd (snd (close s)) = raised_by (fst (snd (close s)))
   \<and> map released_owner (fst (snd (aclose s))) = rev (map (cb_owner \<circ> snd) (exit_stack s))
   \<and> map release_outcome (fst (snd (aclose s)))
     = map (\<lambda>(cb, ev). cb_exit cb (released_with ev))
         (zip (rev (map snd (exit_stack s))) (fst (snd (aclose s))))
   \<and> map released_with (fst (snd (aclose s)))
     = take (length (exit_stack s))
         (None # map (\<lambda>ev. pending_after (released_with ev) (release_outcome ev))
                  (fst (snd (aclose s))))
   \<and> snd (snd (aclose s)) = raised_by (fst (snd (aclose s)))"
proof (intro conjI)
  let ?v0 = "\<lparr>exc_details = None, suppressed_exc = False, pending_raise = False\<rparr>"
  show "map released_owner (fst (snd (close s))) = rev (map cb_owner (sync_exit_stack s))"
    by (rule close_owners)
  show "map released_owner (fst (snd (aclose s))) = rev (map (cb_owner \<circ> snd) (exit_stack s))"
    by (rule aclose_owners)
  show "snd (snd (close s)) = raised_by (fst (snd (close s)))"
    by (rule close_result)
  show "snd (snd (aclose s)) = raised_by (fst (snd (aclose s)))"
    by (rule aclose_result)
  show "map release_outcome (fst (snd (close s)))
     = map (\<lambda>(cb, ev). cb_exit cb (released_with ev))
         (zip (rev (sync_exit_stack s)) (fst (snd (close s))))"
    unfolding close_trace using exit_loop_calls[of "rev (sync_exit_stack s)" ?v0] by blast
  show "map released_with (fst (snd (close s)))
     = take (length (sync_exit_stack s))
         (None # map (\<lambda>ev. pending_after (released_with ev) (release_outcome ev))
                  (fst (snd (close s))))"
    unfolding close_trace using exit_loop_calls[of "rev (sync_exit_stack s)" ?v0] by simp
  show "map release_outcome (fst (snd (aclose s)))
     = map (\<lambda>(cb, ev). cb_exit cb (released_with ev))
         (zip (rev (map snd (exit_stack s))) (fst (snd (aclose s))))"
    unfolding aclose_trace using exit_loop_calls[of "rev (map snd (exit_stack s))" ?v0] by blast
  show "map released_with (fst (snd (aclose s)))
     = take (length (exit_stack s))
         (None # map (\<lambda>ev. pending_after (released_with ev) (release_outcome ev))
                  (fst (snd (aclose s))))"
    unfolding aclose_trace using exit_loop_calls[of "rev (map snd (exit_stack s))" ?v0] by simp
qed

text \<open>
  Claim C5 as stated fails. When the release that runs after a failing one
  returns true, the failure is dropped and \<open>close\<close> raises nothing; and with two
  failing releases the error raised is the exception of the release that ran
  last, not a \<open>ResourceReleaseError\<close>.
\<close>

theorem close_aggregate_counterexample:
  "failures (fst (snd (close (entered_sync InstanceStore_init
      [sync_resource 1 (exit_raising (UserError 1)), sync_resource 2 (exit_raising (UserError 2))]))))
     = [UserError 2, UserError 1]
   \<and> snd (snd (close (entered_sync InstanceStore_init
      [sync_resource 1 (exit_raising (UserError 1)), sync_resource 2 (exit_raising (UserError 2))])))
     = Some (UserError 1)
   \<and> snd (snd (close (entered_sync InstanceStore_init
      [sync_resource 1 (exit_raising (UserError 1)), sync_resource 2 (exit_raising (UserError 2))])))
     \<noteq> Some (ResourceReleaseError [UserError 2, UserError 1])
   \<and> failures (fst (snd (close (entered_sync InstanceStore_init
      [sync_resource 1 exit_suppressing, sync_resource 2 (exit_raising (UserError 2))]))))
     = [UserError 2]
   \<and> snd (snd (close (entered_sync InstanceStore_init
      [sync_resource 1 exit_suppressing, sync_resource 2 (exit_raising (UserError 2))])))
     = None"
  by (simp add: InstanceStore_init_def enter_sync_context_def enter_sync_context_maybe_def
        ExitStack_enter_context_def sync_resource_def close_def store_exit_def ExitStack_exit_def
        exit_step_def exit_raising_def exit_suppressing_def)

text \<open>
  Claim C6. Closing is idempotent: a second \<open>close\<close> (or \<open>aclose\<close>) on the store
  left by the first makes no release call, raises nothing and leaves the store as
  it is, whatever the first one raised; and closing a store whose exit stack is
  empty does the same.
\<close>

theorem close_idempotent:
  "close (fst (close s)) = (fst (close s), [], None)
   \<and> aclose (fst (aclose s)) = (fst (aclose s), [], None)
   \<and> close (s\<lparr>sync_exit_stack := []\<rparr>) = (s\<lparr>sync_exit_stack := []\<rparr>, [], None)
   \<and> aclose (s\<lparr>exit_stack := []\<rparr>) = (s\<lparr>exit_stack := []\<rparr>, [], None)"
  by (simp add: close_def store_exit_def ExitStack_exit_def aclose_def store_aexit_def
        AsyncExitStack_aexit_def split_beta)

section \<open>The cache\<close>

lemma add_cache:
  "cache (add s p obj) = (if lifetime p \<noteq> transient then (cache s)(provider_type p \<mapsto> obj) else cache s)"
  by (simp add: add_def)

lemma add_all_keeps_absent:
  assumes "k \<notin> dom (cache s)"
    and "\<forall>(q, v) \<in> set adds. lifetime q = transient \<or> provider_type q \<noteq> k"
  shows "k \<notin> dom (cache (add_all s adds))"
  using assms
proof (induction adds arbitrary: s)
  case Nil
  then show ?case by simp
next
  case (Cons a adds)
  obtain q v where a: "a = (q, v)" by (cases a)
  from Cons.prems a have "k \<notin> dom (cache (add s q v))"
    by (auto simp: add_cache)
  moreover from Cons.prems have "\<forall>(q, v) \<in> set adds. lifetime q = transient \<or> provider_type q \<noteq> k"
    by simp
  ultimately show ?case using Cons.IH a by simp
qed

text \<open>
  Claim C3, as the code has it. \<open>add(provider, instance)\<close> stores the instance
  under \<open>provider.type_\<close> if and only if the provider's lifetime is not
  transient; for a transient provider it leaves the store unchanged (and, being
  total, raises nothing). So a type that is absent from the cache stays absent,
  and \<open>get\<close> keeps answering that it is not cached, through any sequence of
  \<open>add\<close> calls none of which is made with a non-transient provider of that
  same type.
\<close>

theorem add_caches_unless_transient:
  "cache (add s p obj)
     = (if lifetime p \<noteq> transient then (cache s)(provider_type p \<mapsto> obj) else cache s)
   \<and> (lifetime p = transient \<longrightarrow> add s p obj = s)
   \<and> (lifetime p \<noteq> transient \<longrightarrow> get (add s p obj) p = Some obj)
   \<and> (provider_type p \<notin> dom (cache s)
       \<and> (\<forall>(q, v) \<in> set adds. lifetime q = transient \<or> provider_type q \<noteq> provider_type p)
      \<longrightarrow> provider_type p \<notin> dom (cache (add_all s adds)) \<and> get (add_all s adds) p = None)"
proof (intro conjI impI)
  show "cache (add s p obj)
     = (if lifetime p \<noteq> transient then (cache s)(provider_type p \<mapsto> obj) else cache s)"
    by (rule add_cache)
  show "add s p obj = s" if "lifetime p = transient"
    using that by (simp add: add_def)
  show "get (add s p obj) p = Some obj" if "lifetime p \<noteq> transient"
    using that by (simp add: get_def add_def)
  assume h: "provider_type p \<notin> dom (cache s)
       \<and> (\<forall>(q, v) \<in> set adds. lifetime q = transient \<or> provider_type q \<noteq> provider_type p)"
  then show absent: "provider_type p \<notin> dom (cache (add_all s adds))"
    using add_all_keeps_absent[of "provider_type p" s adds] by blast
  then show "get (add_all s adds) p = None"
    by (auto simp: get_def)
qed

text \<open>A transient and a scoped provider on a new store.\<close>

theorem add_caches_unless_transient_witness:
  "lifetime transient_counter = transient
   \<and> add InstanceStore_init transient_counter (plain_object 0) = InstanceStore_init
   \<and> lifetime scoped_counter \<noteq> transient
   \<and> get (add InstanceStore_init scoped_counter (plain_object 0)) scoped_counter = Some (plain_object 0)
   \<and> provider_type transient_counter \<notin> dom (cache InstanceStore_init)
   \<and> get (add_all InstanceStore_init
        [(transient_counter, plain_object 0), (transient_counter, plain_object 1)]) transient_counter = None"
proof -
  have t: "lifetime transient_counter = transient" by (simp add: transient_counter_def)
  have n: "lifetime scoped_counter \<noteq> transient" by (simp add: scoped_counter_def)
  have a: "provider_type transient_counter \<notin> dom (cache InstanceStore_init)"
    by (simp add: InstanceStore_init_def)
  have q: "\<forall>(q, v) \<in> set [(transient_counter, plain_object 0), (transient_counter, plain_object 1)].
             lifetime q = transient \<or> provider_type q \<noteq> provider_type transient_counter"
    using t by simp
  from add_caches_unless_transient[of InstanceStore_init transient_counter "plain_object 0"
         "[(transient_counter, plain_object 0), (transient_counter, plain_object 1)]"] t a q
  have 1: "add InstanceStore_init transient_counter (plain_object 0) = InstanceStore_init"
    and 2: "get (add_all InstanceStore_init
        [(transient_counter, plain_object 0), (transient_counter, plain_object 1)]) transient_counter = None"
    by blast+
  from add_caches_unless_transient[of InstanceStore_init scoped_counter "plain_object 0" "[]"] n
  have 3: "get (add InstanceStore_init scoped_counter (plain_object 0)) scoped_counter = Some (plain_object 0)"
    by blast
  show ?thesis using t n a 1 2 3 by blast
qed

text \<open>
  Claim C3 as stated fails in its last part: the cache is keyed by the type, not
  by the provider, so after \<open>add\<close> with a scoped provider of type \<open>Counter\<close> the
  cache does hold an entry for the type of a transient provider of \<open>Counter\<close>,
  and \<open>get\<close> with the transient provider returns that cached instance.
\<close>

theorem transient_type_cached_counterexample:
  "lifetime transient_counter = transient
   \<and> provider_type transient_counter
       \<in> dom (cache (add InstanceStore_init scoped_counter (plain_object 0)))
   \<and> get (add InstanceStore_init scoped_counter (plain_object 0)) transient_counter
       = Some (plain_object 0)"
  by (simp add: transient_counter_def scoped_counter_def add_def get_def InstanceStore_init_def)

section \<open>Entering resources\<close>

text \<open>
  Claim C10. \<open>enter_sync_context\<close> enters a value and registers its release on
  the synchronous stack only when the value is an instance of
  \<open>ContextDecorator\<close>; \<open>enter_context\<close> does so on the asynchronous stack only
  when it is an instance of \<open>ContextDecorator\<close> or of \<open>AsyncContextDecorator\<close>.
  Any other value, a context manager that only has \<open>__enter__\<close> and \<open>__exit__\<close>
  included, is returned as it is and the store is unchanged.
\<close>

theorem enter_context_only_context_decorators:
  "(\<not> isinstance_ContextDecorator obj \<longrightarrow> enter_sync_context s obj = (s, Inr obj))
   \<and> (sync_exit_stack (fst (enter_sync_context s obj)) \<noteq> sync_exit_stack s
        \<longrightarrow> isinstance_ContextDecorator obj)
   \<and> (isinstance_ContextDecorator obj \<and> cm_protocol obj = Some (Inr r, exit_method)
        \<longrightarrow> enter_sync_context s obj
            = (s\<lparr>sync_exit_stack :=
                   sync_exit_stack s @ [\<lparr>cb_owner = obj_id obj, cb_exit = exit_method\<rparr>]\<rparr>, Inr r))
   \<and> (\<not> isinstance_ContextDecorator obj \<and> \<not> isinstance_AsyncContextDecorator obj
        \<longrightarrow> enter_context s obj = (s, Inr obj))
   \<and> (exit_stack (fst (enter_context s obj)) \<noteq> exit_stack s
        \<longrightarrow> isinstance_ContextDecorator obj \<or> isinstance_AsyncContextDecorator obj)
   \<and> (isinstance_ContextDecorator obj \<and> cm_protocol obj = Some (Inr r, exit_method)
        \<longrightarrow> enter_context s obj
            = (s\<lparr>exit_stack :=
                   exit_stack s @ [(True, \<lparr>cb_owner = obj_id obj, cb_exit = exit_method\<rparr>)]\<rparr>, Inr r))
   \<and> (\<not> isinstance_ContextDecorator obj \<and> isinstance_AsyncContextDecorator obj
        \<and> acm_protocol obj = Some (Inr r, exit_method)
        \<longrightarrow> enter_context s obj
            = (s\<lparr>exit_stack :=
                   exit_stack s @ [(False, \<lparr>cb_owner = obj_id obj, cb_exit = exit_method\<rparr>)]\<rparr>, Inr r))"
  by (auto simp: enter_sync_context_def enter_sync_context_maybe_def ExitStack_enter_context_def
        enter_context_def enter_context_maybe_def AsyncExitStack_enter_context_def
        AsyncExitStack_enter_async_context_def)

text \<open>A plain context manager is passed through; a generator-based synchronous
  and a generator-based asynchronous one are entered and registered.\<close>

theorem enter_context_only_context_decorators_witness:
  "\<not> isinstance_ContextDecorator (plain_context_manager 5 exit_quietly)
   \<and> \<not> isinstance_AsyncContextDecorator (plain_context_manager 5 exit_quietly)
   \<and> cm_protocol (plain_context_manager 5 exit_quietly) \<noteq> None
   \<and> enter_sync_context InstanceStore_init (plain_context_manager 5 exit_quietly)
       = (InstanceStore_init, Inr (plain_context_manager 5 exit_quietly))
   \<and> enter_context InstanceStore_init (plain_context_manager 5 exit_quietly)
       = (InstanceStore_init, Inr (plain_context_manager 5 exit_quietly))
   \<and> isinstance_ContextDecorator (sync_resource 6 exit_quietly)
   \<and> enter_sync_context InstanceStore_init (sync_resource 6 exit_quietly)
       = (InstanceStore_init\<lparr>sync_exit_stack := [\<lparr>cb_owner = 6, cb_exit = exit_quietly\<rparr>]\<rparr>,
          Inr (plain_object 6))
   \<and> isinstance_AsyncContextDecorator (async_resource 7 exit_quietly)
   \<and> enter_context InstanceStore_init (async_resource 7 exit_quietly)
       = (InstanceStore_init\<lparr>exit_stack := [(False, \<lparr>cb_owner = 7, cb_exit = exit_quietly\<rparr>)]\<rparr>,
          Inr (plain_object 7))"
proof -
  let ?p = "plain_context_manager 5 exit_quietly"
  have p: "\<not> isinstance_ContextDecorator ?p \<and> \<not> isinstance_AsyncContextDecorator ?p
           \<and> cm_protocol ?p \<noteq> None"
    by (simp add: plain_context_manager_def)
  from enter_context_only_context_decorators[of ?p InstanceStore_init] p
  have 1: "enter_sync_context InstanceStore_init ?p = (InstanceStore_init, Inr ?p)"
    and 2: "enter_context InstanceStore_init ?p = (InstanceStore_init, Inr ?p)"
    by blast+
  let ?r = "sync_resource 6 exit_quietly"
  have r: "isinstance_ContextDecorator ?r \<and> cm_protocol ?r = Some (Inr (plain_object 6), exit_quietly)
           \<and> obj_id ?r = 6"
    by (simp add: sync_resource_def)
  from enter_context_only_context_decorators[of ?r InstanceStore_init "plain_object 6" exit_quietly] r
  have 3: "enter_sync_context InstanceStore_init ?r
       = (InstanceStore_init\<lparr>sync_exit_stack := [\<lparr>cb_owner = 6, cb_exit = exit_quietly\<rparr>]\<rparr>,
          Inr (plain_object 6))"
    by (simp add: InstanceStore_init_def)
  let ?a = "async_resource 7 exit_quietly"
  have a: "\<not> isinstance_ContextDecorator ?a \<and> isinstance_AsyncContextDecorator ?a
           \<and> acm_protocol ?a = Some (Inr (plain_object 7), exit_quietly) \<and> obj_id ?a = 7"
    by (simp add: async_resource_def)
  from enter_context_only_context_decorators[of ?a InstanceStore_init "plain_object 7" exit_quietly] a
  have 4: "enter_context InstanceStore_init ?a
       = (InstanceStore_init\<lparr>exit_stack := [(False, \<lparr>cb_owner = 7, cb_exit = exit_quietly\<rparr>)]\<rparr>,
          Inr (plain_object 7))"
    by (simp add: InstanceStore_init_def)
  show ?thesis using p r a 1 2 3 4 by blast
qed

section \<open>The singleton lock\<close>

text \<open>
  Claim C2. \<open>SingletonStore.lock\<close> and \<open>sync_lock\<close> are double-checked. When the
  provider's type is in the cache the context yields \<open>False\<close> and no lock is
  touched. Otherwise the caller has to acquire the lock of that type; once it
  holds the lock, the cache is read again, on the store as it is then, and the
  context yields \<open>True\<close> exactly when the type is still absent. With no other
  caller in between and the lock free, the context therefore yields \<open>True\<close> with
  the lock held.
\<close>

theorem singleton_lock_double_checked:
  "(provider_type p \<in> dom (cache s)
      \<longrightarrow> lock_start s p = Yield False
        \<and> SingletonStore_lock s p = Some (s, False, None)
        \<and> SingletonStore_sync_lock s p = Some (s, False, None))
   \<and> (provider_type p \<notin> dom (cache s) \<longrightarrow> lock_start s p = Acquire (provider_type p))
   \<and> snd (SingletonStore_lock_acquired s' p) = (cache s' (provider_type p) = None)
   \<and> locks (fst (SingletonStore_lock_acquired s' p)) (provider_type p) = Some True
   \<and> cache (fst (SingletonStore_lock_acquired s' p)) = cache s'
   \<and> snd (SingletonStore_sync_lock_acquired s' p) = (cache s' (provider_type p) = None)
   \<and> sync_locks (fst (SingletonStore_sync_lock_acquired s' p)) (provider_type p) = Some True
   \<and> cache (fst (SingletonStore_sync_lock_acquired s' p)) = cache s'
   \<and> (provider_type p \<notin> dom (cache s) \<and> lock_free (locks s) (provider_type p)
      \<longrightarrow> SingletonStore_lock s p
          = Some (s\<lparr>locks := (locks s)(provider_type p \<mapsto> True)\<rparr>, True, Some (provider_type p)))
   \<and> (provider_type p \<notin> dom (cache s) \<and> lock_free (sync_locks s) (provider_type p)
      \<longrightarrow> SingletonStore_sync_lock s p
          = Some (s\<lparr>sync_locks := (sync_locks s)(provider_type p \<mapsto> True)\<rparr>, True,
                  Some (provider_type p)))"
  by (auto simp: lock_start_def SingletonStore_lock_def SingletonStore_sync_lock_def
        SingletonStore_lock_acquired_def SingletonStore_sync_lock_acquired_def)

text \<open>A cached singleton takes the fast path; on a new store the lock is taken and
  the caller constructs; a caller that gets the lock after another one has cached
  the instance is told not to construct.\<close>

theorem singleton_lock_double_checked_witness:
  "provider_type singleton_counter \<in> dom (cache (add SingletonStore_init singleton_counter (plain_object 0)))
   \<and> SingletonStore_lock (add SingletonStore_init singleton_counter (plain_object 0)) singleton_counter
       = Some (add SingletonStore_init singleton_counter (plain_object 0), False, None)
   \<and> SingletonStore_sync_lock (add SingletonStore_init singleton_counter (plain_object 0)) singleton_counter
       = Some (add SingletonStore_init singleton_counter (plain_object 0), False, None)
   \<and> provider_type singleton_counter \<notin> dom (cache SingletonStore_init)
   \<and> lock_start SingletonStore_init singleton_counter = Acquire (TClass ''Counter'')
   \<and> SingletonStore_lock SingletonStore_init singleton_counter
       = Some (SingletonStore_init\<lparr>locks := [TClass ''Counter'' \<mapsto> True]\<rparr>, True,
               Some (TClass ''Counter''))
   \<and> SingletonStore_sync_lock SingletonStore_init singleton_counter
       = Some (SingletonStore_init\<lparr>sync_locks := [TClass ''Counter'' \<mapsto> True]\<rparr>, True,
               Some (TClass ''Counter''))
   \<and> snd (SingletonStore_lock_acquired
            (add SingletonStore_init singleton_counter (plain_object 0)) singleton_counter) = False"
proof -
  let ?s = "add SingletonStore_init singleton_counter (plain_object 0)"
  have t: "provider_type singleton_counter = TClass ''Counter''"
    by (simp add: singleton_counter_def)
  have c: "provider_type singleton_counter \<in> dom (cache ?s)"
    by (simp add: singleton_counter_def add_def)
  have c': "cache ?s (provider_type singleton_counter) \<noteq> None"
    using c by blast
  have e: "provider_type singleton_counter \<notin> dom (cache SingletonStore_init)
           \<and> lock_free (locks SingletonStore_init) (provider_type singleton_counter)
           \<and> lock_free (sync_locks SingletonStore_init) (provider_type singleton_counter)"
    by (simp add: SingletonStore_init_def lock_free_def)
  have l: "locks SingletonStore_init = Map.empty \<and> sync_locks SingletonStore_init = Map.empty"
    by (simp add: SingletonStore_init_def)
  from singleton_lock_double_checked[of singleton_counter ?s ?s] c c'
  have 1: "SingletonStore_lock ?s singleton_counter = Some (?s, False, None)"
    and 2: "SingletonStore_sync_lock ?s singleton_counter = Some (?s, False, None)"
    and 3: "snd (SingletonStore_lock_acquired ?s singleton_counter) = False"
    by blast+
  from singleton_lock_double_checked[of singleton_counter SingletonStore_init SingletonStore_init] e
  have 4: "lock_start SingletonStore_init singleton_counter = Acquire (provider_type singleton_counter)"
    and 5: "SingletonStore_lock SingletonStore_init singleton_counter
       = Some (SingletonStore_init\<lparr>locks := (locks SingletonStore_init)(provider_type singleton_counter \<mapsto> True)\<rparr>,
               True, Some (provider_type singleton_counter))"
    and 6: "SingletonStore_sync_lock SingletonStore_init singleton_counter
       = Some (SingletonStore_init\<lparr>sync_locks := (sync_locks SingletonStore_init)(provider_type singleton_counter \<mapsto> True)\<rparr>,
               True, Some (provider_type singleton_counter))"
    by blast+
  show ?thesis using c e 1 2 3 4 5 6 by (simp add: t l)
qed

section \<open>Construction\<close>

lemma Scoped_init_Inr:
  "Scoped_init cls factory type_arg = Inr p \<Longrightarrow> \<exists>t. p = FactoryProvider cls factory t None"
  by (auto simp: Scoped_init_def split: option.splits sum.splits)

text \<open>
  Claim C7, as the code has it. \<open>provide_sync\<close> of a \<open>Scoped\<close>, \<open>Singleton\<close> or
  \<open>Transient\<close> provider is one call of the bound factory with the given
  arguments and nothing else; \<open>provide\<close> is the same call, followed by one await
  of what the call returned when the factory is a coroutine function. So an
  exception raised by the call, or by the awaited coroutine, reaches the caller
  as it is, with no wrapper and no type attached, and the world is as that one
  call (and await) leaves it: nothing is retried. For a coroutine function
  \<open>provide_sync\<close> returns the coroutine that was not awaited, so what its body
  would raise is not raised.
\<close>

theorem provide_propagates_factory_exception:
  "(Scoped_init cls factory type_arg = Inr p
      \<longrightarrow> provide_sync p kwargs w = f_call factory kwargs w
        \<and> provide p kwargs w
            = (if f_iscoroutinefunction factory
               then (case f_call factory kwargs w of
                       (Inl e, w') \<Rightarrow> (Inl e, w')
                     | (Inr awaitable, w') \<Rightarrow> f_await factory awaitable w')
               else f_call factory kwargs w))
   \<and> (Scoped_init cls factory type_arg = Inr p \<and> f_call factory kwargs w = (Inl e, w')
      \<longrightarrow> provide_sync p kwargs w = (Inl e, w') \<and> provide p kwargs w = (Inl e, w'))
   \<and> (Scoped_init cls factory type_arg = Inr p \<and> f_iscoroutinefunction factory
        \<and> f_call factory kwargs w = (Inr awaitable, w1)
        \<and> f_await factory awaitable w1 = (Inl e, w')
      \<longrightarrow> provide_sync p kwargs w = (Inr awaitable, w1) \<and> provide p kwargs w = (Inl e, w'))"
  by (auto dest!: Scoped_init_Inr)

text \<open>
  A function that raises and an \<open>async def\<close> whose body raises, each called
  through a singleton provider; the world counts the runs of a body.
\<close>

theorem provide_propagates_factory_exception_witness:
  "Scoped_init Singleton failing_factory None
     = Inr (FactoryProvider Singleton failing_factory (TClass ''Counter'') None)
   \<and> f_call failing_factory Map.empty 0 = (Inl (UserError 1), 1)
   \<and> provide_sync (FactoryProvider Singleton failing_factory (TClass ''Counter'') None) Map.empty 0
       = (Inl (UserError 1), 1)
   \<and> provide (FactoryProvider Singleton failing_factory (TClass ''Counter'') None) Map.empty 0
       = (Inl (UserError 1), 1)
   \<and> Scoped_init Singleton failing_coroutine_factory None
     = Inr (FactoryProvider Singleton failing_coroutine_factory (TClass ''Counter'') None)
   \<and> f_iscoroutinefunction failing_coroutine_factory
   \<and> f_call failing_coroutine_factory Map.empty 0 = (Inr (plain_object 99), 0)
   \<and> f_await failing_coroutine_factory (plain_object 99) 0 = (Inl (UserError 1), 1)
   \<and> provide_sync (FactoryProvider Singleton failing_coroutine_factory (TClass ''Counter'') None)
        Map.empty 0
       = (Inr (plain_object 99), 0)
   \<and> provide (FactoryProvider Singleton failing_coroutine_factory (TClass ''Counter'') None)
        Map.empty 0
       = (Inl (UserError 1), 1)"
proof -
  have i: "Scoped_init Singleton failing_factory None
     = Inr (FactoryProvider Singleton failing_factory (TClass ''Counter'') None)"
    by (simp add: Scoped_init_def guess_return_type_def failing_factory_def make_counter_def
          unwrap_generator_type_def)
  have c: "f_call failing_factory Map.empty 0 = (Inl (UserError 1), 1)"
    by (simp add: failing_factory_def make_counter_def)
  from provide_propagates_factory_exception[of Singleton failing_factory None
         "FactoryProvider Singleton failing_factory (TClass ''Counter'') None" Map.empty 0
         "UserError 1" 1] i c
  have 1: "provide_sync (FactoryProvider Singleton failing_factory (TClass ''Counter'') None) Map.empty 0
       = (Inl (UserError 1), 1)"
    and 2: "provide (FactoryProvider Singleton failing_factory (TClass ''Counter'') None) Map.empty 0
       = (Inl (UserError 1), 1)"
    by blast+
  have j: "Scoped_init Singleton failing_coroutine_factory None
     = Inr (FactoryProvider Singleton failing_coroutine_factory (TClass ''Counter'') None)"
    by (simp add: Scoped_init_def guess_return_type_def failing_coroutine_factory_def
          make_counter_def unwrap_generator_type_def)
  have k: "f_iscoroutinefunction failing_coroutine_factory
     \<and> f_call failing_coroutine_factory Map.empty 0 = (Inr (plain_object 99), 0)
     \<and> f_await failing_coroutine_factory (plain_object 99) 0 = (Inl (UserError 1), 1)"
    by (simp add: failing_coroutine_factory_def make_counter_def)
  from provide_propagates_factory_exception[where cls = Singleton
         and factory = failing_coroutine_factory and type_arg = None
         and p = "FactoryProvider Singleton failing_coroutine_factory (TClass ''Counter'') None"
         and kwargs = Map.empty and w = 0 and awaitable = "plain_object 99" and ?w1.0 = 0
         and e = "UserError 1" and w' = 1] j k
  have 3: "provide_sync (FactoryProvider Singleton failing_coroutine_factory (TClass ''Counter'') None)
        Map.empty 0 = (Inr (plain_object 99), 0)"
    and 4: "provide (FactoryProvider Singleton failing_coroutine_factory (TClass ''Counter'') None)
        Map.empty 0 = (Inl (UserError 1), 1)"
    by blast+
  show ?thesis using i c j k 1 2 3 4 by blast
qed

text \<open>
  Claim C7 as stated fails: what reaches the caller is the factory's own
  exception, not a \<open>ConstructionError\<close> wrapping it and naming the type; and
  \<open>provide_sync\<close> of a coroutine function whose body raises returns normally.
\<close>

theorem construction_error_counterexample:
  "provide_sync (FactoryProvider Singleton failing_factory (TClass ''Counter'') None) Map.empty 0
     = (Inl (UserError 1), 1)
   \<and> fst (provide_sync (FactoryProvider Singleton failing_factory (TClass ''Counter'') None) Map.empty 0)
     \<noteq> Inl (ConstructionError (TClass ''Counter'') (UserError 1))
   \<and> provide (FactoryProvider Singleton failing_coroutine_factory (TClass ''Counter'') None)
        Map.empty 0
     = (Inl (UserError 1), 1)
   \<and> fst (provide (FactoryProvider Singleton failing_coroutine_factory (TClass ''Counter'') None)
        Map.empty 0)
     \<noteq> Inl (ConstructionError (TClass ''Counter'') (UserError 1))
   \<and> provide_sync (FactoryProvider Singleton failing_coroutine_factory (TClass ''Counter'') None)
        Map.empty 0
     = (Inr (plain_object 99), 0)"
  by (simp add: failing_factory_def failing_coroutine_factory_def make_counter_def)

section \<open>Registration\<close>

lemma guess_not_class:
  assumes "\<not> f_isclass f" and "\<forall>orig. f_get_origin f = Some orig \<longrightarrow> \<not> isclass orig"
    and "return_type_of_hints f (f_type_hints f) = Inl e"
  shows "guess_return_type f = Inl e"
  using assms by (auto simp: guess_return_type_def split: option.splits)

text \<open>
  Claim C8, as the code has it. Let a factory that is neither a class nor a
  generic alias of one be registered without a type argument. If its type hints
  resolve but have no \<open>"return"\<close> entry (or resolving them raises \<open>KeyError\<close>),
  constructing the provider fails with the \<open>ValueError\<close> "does not specify
  return type"; if resolving them raises \<open>NameError\<close> and evaluating the return
  annotation it has raises \<open>NameError\<close> again, it fails with the \<open>ValueError\<close>
  "... Or it's type is not defined yet". With a type argument the constructor
  never fails. Construction through \<open>provide_sync\<close> and \<open>provide\<close> does not
  depend on anything type resolution reads, so it cannot raise that error.
\<close>

theorem unresolved_return_type_fails_registration:
  "(\<not> f_isclass f \<and> (\<forall>orig. f_get_origin f = Some orig \<longrightarrow> \<not> isclass orig)
      \<and> f_type_hints f = Inr hints \<and> map_of hints ''return'' = None
    \<longrightarrow> Scoped_init cls f None = Inl (ValueError (msg_no_return_type (f_qualname f))))
   \<and> (\<not> f_isclass f \<and> (\<forall>orig. f_get_origin f = Some orig \<longrightarrow> \<not> isclass orig)
      \<and> f_type_hints f = Inl (KeyError k)
    \<longrightarrow> Scoped_init cls f None = Inl (ValueError (msg_no_return_type (f_qualname f))))
   \<and> (\<not> f_isclass f \<and> (\<forall>orig. f_get_origin f = Some orig \<longrightarrow> \<not> isclass orig)
      \<and> f_type_hints f = Inl NameError \<and> map_of (f_annotations f) ''return'' = Some a
      \<and> f_get_return_annotation f a = Inl NameError
    \<longrightarrow> Scoped_init cls f None = Inl (ValueError (msg_not_defined_yet (f_qualname f))))
   \<and> Scoped_init cls f (Some t) = Inr (FactoryProvider cls f t None)
   \<and> provide_sync (FactoryProvider cls
        (f\<lparr>f_type_hints := h, f_annotations := an, f_get_return_annotation := g\<rparr>) t d) kwargs w
      = provide_sync (FactoryProvider cls f t d) kwargs w
   \<and> provide (FactoryProvider cls
        (f\<lparr>f_type_hints := h, f_annotations := an, f_get_return_annotation := g\<rparr>) t d) kwargs w
      = provide (FactoryProvider cls f t d) kwargs w"
proof (intro conjI impI)
  assume h: "\<not> f_isclass f \<and> (\<forall>orig. f_get_origin f = Some orig \<longrightarrow> \<not> isclass orig)
      \<and> f_type_hints f = Inr hints \<and> map_of hints ''return'' = None"
  then have "return_type_of_hints f (f_type_hints f) = Inl (ValueError (msg_no_return_type (f_qualname f)))"
    by simp
  with h have "guess_return_type f = Inl (ValueError (msg_no_return_type (f_qualname f)))"
    using guess_not_class by blast
  then show "Scoped_init cls f None = Inl (ValueError (msg_no_return_type (f_qualname f)))"
    by (simp add: Scoped_init_def)
next
  assume h: "\<not> f_isclass f \<and> (\<forall>orig. f_get_origin f = Some orig \<longrightarrow> \<not> isclass orig)
      \<and> f_type_hints f = Inl (KeyError k)"
  then have "return_type_of_hints f (f_type_hints f) = Inl (ValueError (msg_no_return_type (f_qualname f)))"
    by simp
  with h have "guess_return_type f = Inl (ValueError (msg_no_return_type (f_qualname f)))"
    using guess_not_class by blast
  then show "Scoped_init cls f None = Inl (ValueError (msg_no_return_type (f_qualname f)))"
    by (simp add: Scoped_init_def)
next
  assume h: "\<not> f_isclass f \<and> (\<forall>orig. f_get_origin f = Some orig \<longrightarrow> \<not> isclass orig)
      \<and> f_type_hints f = Inl NameError \<and> map_of (f_annotations f) ''return'' = Some a
      \<and> f_get_return_annotation f a = Inl NameError"
  then have "return_type_of_hints f (f_type_hints f) = Inl (ValueError (msg_not_defined_yet (f_qualname f)))"
    by simp
  with h have "guess_return_type f = Inl (ValueError (msg_not_defined_yet (f_qualname f)))"
    using guess_not_class by blast
  then show "Scoped_init cls f None = Inl (ValueError (msg_not_defined_yet (f_qualname f)))"
    by (simp add: Scoped_init_def)
qed (auto simp: Scoped_init_def split: prod.splits sum.splits)

text \<open>A factory without return annotation, and one whose return annotation
  names an undefined type.\<close>

theorem unresolved_return_type_fails_registration_witness:
  "Scoped_init Scoped unannotated_factory None
     = Inl (ValueError ''Factory make does not specify return type.'')
   \<and> Scoped_init Scoped forward_ref_factory None
     = Inl (ValueError ''Factory make does not specify return type. Or it's type is not defined yet.'')"
proof -
  have u: "\<not> f_isclass unannotated_factory
      \<and> (\<forall>orig. f_get_origin unannotated_factory = Some orig \<longrightarrow> \<not> isclass orig)
      \<and> f_type_hints unannotated_factory = Inr [] \<and> map_of [] ''return'' = (None :: ty option)"
    by (simp add: unannotated_factory_def make_counter_def)
  have r: "\<not> f_isclass forward_ref_factory
      \<and> (\<forall>orig. f_get_origin forward_ref_factory = Some orig \<longrightarrow> \<not> isclass orig)
      \<and> f_type_hints forward_ref_factory = Inl NameError
      \<and> map_of (f_annotations forward_ref_factory) ''return'' = Some ''Undefined''
      \<and> f_get_return_annotation forward_ref_factory ''Undefined'' = Inl NameError"
    by (simp add: forward_ref_factory_def make_counter_def)
  have q: "f_qualname unannotated_factory = ''make'' \<and> f_qualname forward_ref_factory = ''make''"
    by (simp add: unannotated_factory_def forward_ref_factory_def make_counter_def)
  from unresolved_return_type_fails_registration[where f = unannotated_factory and hints = "[]" and cls = Scoped] u
  have 1: "Scoped_init Scoped unannotated_factory None
     = Inl (ValueError (msg_no_return_type (f_qualname unannotated_factory)))"
    by blast
  from unresolved_return_type_fails_registration[where f = forward_ref_factory and a = "''Undefined''" and cls = Scoped] r
  have 2: "Scoped_init Scoped forward_ref_factory None
     = Inl (ValueError (msg_not_defined_yet (f_qualname forward_ref_factory)))"
    by blast
  show ?thesis using 1 2 q by (simp add: msg_no_return_type_def msg_not_defined_yet_def)
qed

text \<open>
  Claim C8 as stated fails: the error raised at registration is the built-in
  \<open>ValueError\<close>, not a \<open>TypeResolutionError\<close>.
\<close>

theorem type_resolution_error_counterexample:
  "Scoped_init Scoped unannotated_factory None
     = Inl (ValueError ''Factory make does not specify return type.'')
   \<and> Scoped_init Scoped unannotated_factory None \<noteq> Inl TypeResolutionError"
  by (simp add: Scoped_init_def guess_return_type_def unannotated_factory_def make_counter_def
        msg_no_return_type_def)

text \<open>
  One case falls outside the two \<open>ValueError\<close> paths: when resolving the hints
  raises \<open>NameError\<close> (a parameter annotated with an undefined name) and the
  factory has no return annotation, the lookup
  \<open>unwrapped.__annotations__["return"]\<close> in the handler raises \<open>KeyError\<close>,
  which leaves the constructor as it is.
\<close>

lemma missing_return_annotation_after_NameError:
  "Scoped_init Scoped forward_param_factory None = Inl (KeyError ''return'')"
  by (simp add: Scoped_init_def guess_return_type_def forward_param_factory_def make_counter_def)

section \<open>Object providers\<close>

text \<open>
  Claim C9. An \<open>Object\<close> provider returns the value it wraps from both
  \<open>provide_sync\<close> and \<open>provide\<close>, whatever the arguments, leaving the world as
  it is; and its dependencies, collected the first time or read from the cache
  afterwards, are empty.
\<close>

theorem Object_provider_returns_value:
  "provide_sync (Object_init v type_of_v type_arg) kwargs w = (Inr v, w)
   \<and> provide (Object_init v type_of_v type_arg) kwargs w = (Inr v, w)
   \<and> snd (provider_collect_dependencies (Object_init v type_of_v type_arg)) = Inr []
   \<and> snd (provider_collect_dependencies
            (fst (provider_collect_dependencies (Object_init v type_of_v type_arg)))) = Inr []"
  by (simp add: Object_init_def provider_collect_dependencies_def)

end
